theory Spec2Isabelle
  imports Complex_Main
begin

section \<open>JavaScript strings\<close>

text \<open>
  A JavaScript string is a sequence of UTF-16 code units. The lead fields are free text
  read from an uploaded CSV file, so a code unit is a natural number here and not an
  8-bit character. A literal of the source is written \<open>str ''...''\<close>.
\<close>

type_synonym jsstring = "nat list"

definition str :: "string \<Rightarrow> jsstring" where
  "str s = map of_char s"

text \<open>
  \<open>String.prototype.toLowerCase\<close> and \<open>toUpperCase\<close> follow the Unicode case
  mappings. On the ASCII code units they are fixed: \<open>A\<close>..\<open>Z\<close> and \<open>a\<close>..\<open>z\<close>
  are exchanged, every other ASCII unit is kept, whatever stands around it. The mappings
  of the code units from 128 on are the tables of the Unicode Character Database, which
  are no part of the repository: they are the parameter \<open>U\<close> of every function that
  converts case. \<open>lowerOf U s i\<close> is what the non-ASCII code unit at position \<open>i\<close> of
  the string \<open>s\<close> contributes to the lower case of \<open>s\<close>: it may be several code units
  (U+00DF upper-cases to \<open>SS\<close>), and it may depend on the neighbours (a final sigma,
  the two halves of a surrogate pair).
\<close>

record caseTables =
  lowerOf :: "jsstring \<Rightarrow> nat \<Rightarrow> jsstring"
  upperOf :: "jsstring \<Rightarrow> nat \<Rightarrow> jsstring"

definition asciiLower :: "nat \<Rightarrow> nat" where
  "asciiLower c = (if 65 \<le> c \<and> c \<le> 90 then c + 32 else c)"

definition asciiUpper :: "nat \<Rightarrow> nat" where
  "asciiUpper c = (if 97 \<le> c \<and> c \<le> 122 then c - 32 else c)"

fun lowerFrom :: "caseTables \<Rightarrow> jsstring \<Rightarrow> nat \<Rightarrow> jsstring \<Rightarrow> jsstring" where
  "lowerFrom U s i [] = []"
| "lowerFrom U s i (c # cs) =
     (if c < 128 then [asciiLower c] else lowerOf U s i) @ lowerFrom U s (i + 1) cs"

fun upperFrom :: "caseTables \<Rightarrow> jsstring \<Rightarrow> nat \<Rightarrow> jsstring \<Rightarrow> jsstring" where
  "upperFrom U s i [] = []"
| "upperFrom U s i (c # cs) =
     (if c < 128 then [asciiUpper c] else upperOf U s i) @ upperFrom U s (i + 1) cs"

definition toLowerCase :: "caseTables \<Rightarrow> jsstring \<Rightarrow> jsstring" where
  "toLowerCase U s = lowerFrom U s 0 s"

definition toUpperCase :: "caseTables \<Rightarrow> jsstring \<Rightarrow> jsstring" where
  "toUpperCase U s = upperFrom U s 0 s"

text \<open>
  The entries of the Unicode tables for U+017F (LATIN SMALL LETTER LONG S): it is a
  lower-case letter, and its upper case is \<open>S\<close> (U+0053), in every context. The other
  entries of this sample are the identity; the strings it is applied to below hold no
  other non-ASCII code unit.
\<close>

definition longS :: nat where
  "longS = 383"

definition sampleTables :: caseTables where
  "sampleTables =
     \<lparr> lowerOf = (\<lambda>s i. [s ! i]),
       upperOf = (\<lambda>s i. if s ! i = longS then [83] else [s ! i]) \<rparr>"

text \<open>\<open>s.startsWith(t)\<close> and \<open>s.includes(t)\<close> (here \<open>includesStr\<close>): \<open>t\<close> is a prefix, a
  contiguous part of \<open>s\<close>.\<close>

definition startsWith :: "jsstring \<Rightarrow> jsstring \<Rightarrow> bool" where
  "startsWith s t = (take (length t) s = t)"

fun includesStr :: "jsstring \<Rightarrow> jsstring \<Rightarrow> bool" where
  "includesStr [] t = (t = [])"
| "includesStr (c # cs) t = (startsWith (c # cs) t \<or> includesStr cs t)"

text \<open>
  The white space and line terminators of ECMAScript, which \<open>trim\<close> removes at both ends
  and the regular expression class \<open>\s\<close> matches: TAB, LF, VT, FF, CR, SP, NBSP,
  U+1680, U+2000..U+200A, U+2028, U+2029, U+202F, U+205F, U+3000, U+FEFF.
\<close>

definition isWhiteSpace :: "nat \<Rightarrow> bool" where
  "isWhiteSpace c = (c \<in> set [9, 10, 11, 12, 13, 32, 160, 5760, 8232, 8233, 8239, 8287, 12288, 65279]
                     \<or> (8192 \<le> c \<and> c \<le> 8202))"

definition trim :: "jsstring \<Rightarrow> jsstring" where
  "trim s = rev (dropWhile isWhiteSpace (rev (dropWhile isWhiteSpace s)))"

text \<open>Number to string, for the integers the templates of the source print.\<close>

function showNat :: "nat \<Rightarrow> jsstring" where
  "showNat n = (if n < 10 then [48 + n] else showNat (n div 10) @ [48 + n mod 10])"
  by pat_completeness auto
termination
  by (relation "measure id") auto

declare showNat.simps [simp del]

definition showInt :: "int \<Rightarrow> jsstring" where
  "showInt i = (if i < 0 then str ''-'' @ showNat (nat (- i)) else showNat (nat i))"


section \<open>Data model\<close>

text \<open>
  A lead has six text fields. The upload route builds each with
  \<open>(row.f || '').toString().trim()\<close>, so a stored field is a string; the rule engine
  and its tests also take a lead in which a field is missing (\<open>undefined\<close> or
  \<open>null\<close>), which is \<open>None\<close>. A field is falsy when it is missing or the empty
  string. An offer is stored with its two arrays of strings; the functions also take an
  offer without \<open>ideal_use_cases\<close>, and no offer at all.
\<close>

record lead =
  name :: "jsstring option"
  role :: "jsstring option"
  company :: "jsstring option"
  industry :: "jsstring option"
  location :: "jsstring option"
  linkedin_bio :: "jsstring option"

record offer =
  offer_name :: jsstring
  value_props :: "jsstring list option"
  ideal_use_cases :: "jsstring list option"

text \<open>
  \<open>f && p(f)\<close> as a condition: the field is present, not the empty string, and \<open>p\<close>
  holds of it.
\<close>

definition truthyAnd :: "jsstring option \<Rightarrow> (jsstring \<Rightarrow> bool) \<Rightarrow> bool" where
  "truthyAnd f p = (case f of None \<Rightarrow> False | Some s \<Rightarrow> s \<noteq> [] \<and> p s)"


section \<open>Rule engine\<close>

definition DECISION_MAKER_ROLES :: "jsstring list" where
  "DECISION_MAKER_ROLES = map str
     [''ceo'', ''cto'', ''cfo'', ''coo'', ''president'', ''founder'', ''owner'', ''director'',
      ''vp'', ''vice president'', ''head of'', ''chief'', ''manager'', ''lead'', ''senior manager'']"

definition INFLUENCER_ROLES :: "jsstring list" where
  "INFLUENCER_ROLES = map str
     [''senior'', ''principal'', ''architect'', ''specialist'', ''analyst'', ''coordinator'',
      ''supervisor'', ''team lead'', ''project manager'', ''product manager'']"

definition ICP_INDUSTRIES :: "jsstring list" where
  "ICP_INDUSTRIES = map str
     [''saas'', ''software'', ''technology'', ''tech'', ''fintech'', ''edtech'', ''healthcare tech'',
      ''b2b'', ''enterprise software'', ''cloud'', ''digital'', ''platform'', ''api'']"

definition ADJACENT_INDUSTRIES :: "jsstring list" where
  "ADJACENT_INDUSTRIES = map str
     [''finance'', ''financial services'', ''consulting'', ''marketing'', ''advertising'', ''media'',
      ''e-commerce'', ''retail'', ''healthcare'', ''education'', ''real estate'', ''manufacturing'']"

text \<open>
  \<open>calculateRoleScore(role)\<close>: the two loops return at the first keyword that the
  lower-cased role includes, the decision-maker list first.
\<close>

definition calculateRoleScore :: "caseTables \<Rightarrow> jsstring option \<Rightarrow> int" where
  "calculateRoleScore U role0 =
     (case role0 of
        None \<Rightarrow> 0
      | Some r \<Rightarrow>
          if r = [] then 0
          else let roleLower = toLowerCase U r in
            if list_ex (\<lambda>decisionRole. includesStr roleLower decisionRole) DECISION_MAKER_ROLES then 20
            else if list_ex (\<lambda>influencerRole. includesStr roleLower influencerRole) INFLUENCER_ROLES then 10
            else 0)"

text \<open>
  \<open>calculateIndustryScore(industry, offer)\<close>: the offer may be absent and may lack
  \<open>ideal_use_cases\<close>; an array, also an empty one, is truthy.
\<close>

definition matchesUseCase :: "caseTables \<Rightarrow> jsstring \<Rightarrow> offer option \<Rightarrow> bool" where
  "matchesUseCase U industryLower off =
     (case off of
        None \<Rightarrow> False
      | Some theOffer \<Rightarrow>
          (case ideal_use_cases theOffer of
             None \<Rightarrow> False
           | Some useCases \<Rightarrow> list_ex (\<lambda>useCase. includesStr industryLower (toLowerCase U useCase)) useCases))"

definition calculateIndustryScore :: "caseTables \<Rightarrow> jsstring option \<Rightarrow> offer option \<Rightarrow> int" where
  "calculateIndustryScore U ind off =
     (case ind of
        None \<Rightarrow> 0
      | Some i \<Rightarrow>
          if i = [] then 0
          else let industryLower = toLowerCase U i in
            if matchesUseCase U industryLower off then 20
            else if list_ex (\<lambda>icpIndustry. includesStr industryLower icpIndustry) ICP_INDUSTRIES then 20
            else if list_ex (\<lambda>adjacentIndustry. includesStr industryLower adjacentIndustry) ADJACENT_INDUSTRIES then 10
            else 0)"

text \<open>
  \<open>countCompleteFields(lead)\<close>: the fields that are a string, truthy, and not empty
  after trimming.
\<close>

definition requiredFields :: "(lead \<Rightarrow> jsstring option) list" where
  "requiredFields = [name, role, company, industry, location, linkedin_bio]"

definition isComplete :: "jsstring option \<Rightarrow> bool" where
  "isComplete f = truthyAnd f (\<lambda>s. length (trim s) > 0)"

definition countCompleteFields :: "lead \<Rightarrow> nat" where
  "countCompleteFields l = length (filter (\<lambda>field. isComplete (field l)) requiredFields)"

text \<open>
  \<open>calculateCompletenessScore(lead)\<close>: \<open>Math.floor((completeFields / totalFields) * 10)\<close>.
  The quotient is a double in the source and a rational here; for the counts 0..5 that
  reach the floor the doubles are 0, 1.66.., 3.33.., 5 (exact), 6.66.., 8.33.., whose
  floors are those of the rationals.
\<close>

definition totalFields :: nat where
  "totalFields = 6"

definition calculateCompletenessScore :: "lead \<Rightarrow> int" where
  "calculateCompletenessScore l =
     (let completeFields = countCompleteFields l in
      if completeFields = totalFields then 10
      else \<lfloor>(rat_of_nat completeFields / rat_of_nat totalFields) * 10\<rfloor>)"

record breakdown =
  roleScore :: int
  industryScore :: int
  completenessScore :: int
  total :: int
  details :: "jsstring list"

definition roleDetail :: "int \<Rightarrow> jsstring" where
  "roleDetail s =
     (if s = 20 then str ''Decision maker role (+20 points)''
      else if s = 10 then str ''Influencer role (+10 points)''
      else str ''Non-decision maker role (0 points)'')"

definition industryDetail :: "int \<Rightarrow> jsstring" where
  "industryDetail s =
     (if s = 20 then str ''Perfect industry match (+20 points)''
      else if s = 10 then str ''Adjacent industry match (+10 points)''
      else str ''No industry match (0 points)'')"

definition completenessDetail :: "lead \<Rightarrow> int \<Rightarrow> jsstring" where
  "completenessDetail l s =
     (if s = 10 then str ''All fields complete (+10 points)''
      else str ''Missing '' @ showInt (6 - int (countCompleteFields l)) @ str '' fields (-''
           @ showInt (10 - s) @ str '' points)'')"

definition calculateRuleScore :: "caseTables \<Rightarrow> lead \<Rightarrow> offer option \<Rightarrow> breakdown" where
  "calculateRuleScore U l off =
     (let rs = calculateRoleScore U (role l);
          score1 = 0 + rs;
          ins = calculateIndustryScore U (industry l) off;
          score2 = score1 + ins;
          cs = calculateCompletenessScore l;
          score3 = score2 + cs
      in \<lparr> roleScore = rs, industryScore = ins, completenessScore = cs,
           total = min score3 50,
           details = [roleDetail rs, industryDetail ins, completenessDetail l cs] \<rparr>)"


section \<open>Intent classifier\<close>

record intentResult =
  intent :: jsstring
  reasoning :: jsstring
  aiPoints :: int
  source :: jsstring

text \<open>
  \<open>getFallbackScore(lead, offer)\<close>. The lead may be absent (\<open>parseAIResponse\<close> calls it
  without arguments). The offer is a parameter that the body never reads.
\<close>

definition fallbackRoleKeywords :: "jsstring list" where
  "fallbackRoleKeywords = map str [''ceo'', ''cto'', ''cfo'', ''director'', ''vp'', ''head'', ''manager'']"

definition fallbackIndustryKeywords :: "jsstring list" where
  "fallbackIndustryKeywords = map str [''tech'', ''software'', ''saas'', ''digital'']"

definition hasDecisionMakerRole :: "caseTables \<Rightarrow> lead \<Rightarrow> bool" where
  "hasDecisionMakerRole U l =
     truthyAnd (role l) (\<lambda>r. list_ex (\<lambda>title. includesStr (toLowerCase U r) title) fallbackRoleKeywords)"

definition hasTechIndustry :: "caseTables \<Rightarrow> lead \<Rightarrow> bool" where
  "hasTechIndustry U l =
     truthyAnd (industry l) (\<lambda>i. list_ex (\<lambda>keyword. includesStr (toLowerCase U i) keyword) fallbackIndustryKeywords)"

definition hasCompleteProfile :: "lead \<Rightarrow> bool" where
  "hasCompleteProfile l =
     list_all (\<lambda>field. truthyAnd field (\<lambda>s. length (trim s) > 0)) [name l, role l, company l, industry l]"

definition getFallbackScore :: "caseTables \<Rightarrow> lead option \<Rightarrow> offer option \<Rightarrow> intentResult" where
  "getFallbackScore U ld off =
     (case ld of
        None \<Rightarrow>
          \<lparr> intent = str ''Low'', reasoning = str ''Insufficient lead data for analysis'',
            aiPoints = 10, source = str ''fallback'' \<rparr>
      | Some l \<Rightarrow>
          if hasDecisionMakerRole U l \<and> hasTechIndustry U l \<and> hasCompleteProfile l then
            \<lparr> intent = str ''High'',
              reasoning = str ''Fallback analysis: ''
                @ str ''Decision maker in tech industry with complete profile indicates high intent'',
              aiPoints = 50, source = str ''fallback'' \<rparr>
          else if hasDecisionMakerRole U l \<or> hasTechIndustry U l then
            \<lparr> intent = str ''Medium'',
              reasoning = str ''Fallback analysis: ''
                @ str ''Some positive indicators but not all criteria met'',
              aiPoints = 30, source = str ''fallback'' \<rparr>
          else
            \<lparr> intent = str ''Low'',
              reasoning = str ''Fallback analysis: ''
                @ str ''Limited indicators of buying intent or decision-making authority'',
              aiPoints = 10, source = str ''fallback'' \<rparr>)"

text \<open>
  \<open>intentToPoints(intent)\<close>: \<open>mapping[intent] || 30\<close> over the object literal
  \<open>{High: 50, Medium: 30, Low: 10}\<close>. The three values are truthy. The names that
  every object inherits from \<open>Object.prototype\<close> (listed below) are looked up there
  and give a function instead of a number; on every other string the function of the
  model is the one of the source. \<open>parseAIResponse\<close>, the only caller, passes one of
  the three labels.
\<close>

definition mapping :: "(jsstring \<times> int) list" where
  "mapping = [(str ''High'', 50), (str ''Medium'', 30), (str ''Low'', 10)]"

definition objectPrototypeNames :: "jsstring list" where
  "objectPrototypeNames = map str
     [''constructor'', ''hasOwnProperty'', ''isPrototypeOf'', ''propertyIsEnumerable'',
      ''toLocaleString'', ''toString'', ''valueOf'', ''__proto__'', ''__defineGetter__'',
      ''__defineSetter__'', ''__lookupGetter__'', ''__lookupSetter__'']"

definition intentToPoints :: "jsstring \<Rightarrow> int" where
  "intentToPoints i = (case map_of mapping i of Some p \<Rightarrow> p | None \<Rightarrow> 30)"

text \<open>
  A pattern character of a regular expression with the flag \<open>i\<close> (and without \<open>u\<close>)
  matches a code unit with the same canonical form. The patterns of the source are ASCII,
  and the canonical form of a non-ASCII code unit is never ASCII, so an ASCII pattern
  character matches exactly its two ASCII cases.
\<close>

definition ciEq :: "nat \<Rightarrow> nat \<Rightarrow> bool" where
  "ciEq c p = (c < 128 \<and> asciiUpper c = asciiUpper p)"

fun ciPrefix :: "jsstring \<Rightarrow> jsstring \<Rightarrow> bool" where
  "ciPrefix [] s = True"
| "ciPrefix (p # ps) [] = False"
| "ciPrefix (p # ps) (c # cs) = (ciEq c p \<and> ciPrefix ps cs)"

text \<open>
  \<open>line.match(/intent:\s*(high|medium|low)/i)\<close>: the leftmost position where
  \<open>intent:\<close>, then white space, then one of the labels matches; the result is the text
  of the label as it stands in the line. No label starts with white space, so \<open>\s*\<close>
  takes all of it.
\<close>

definition matchLabel :: "jsstring \<Rightarrow> jsstring option" where
  "matchLabel s =
     (if ciPrefix (str ''high'') s then Some (take 4 s)
      else if ciPrefix (str ''medium'') s then Some (take 6 s)
      else if ciPrefix (str ''low'') s then Some (take 3 s)
      else None)"

definition intentMatchAt :: "jsstring \<Rightarrow> jsstring option" where
  "intentMatchAt s =
     (if ciPrefix (str ''intent:'') s then matchLabel (dropWhile isWhiteSpace (drop 7 s)) else None)"

fun intentMatch :: "jsstring \<Rightarrow> jsstring option" where
  "intentMatch [] = None"
| "intentMatch (c # cs) =
     (case intentMatchAt (c # cs) of Some m \<Rightarrow> Some m | None \<Rightarrow> intentMatch cs)"

text \<open>\<open>line.replace(/reasoning:\s*/i, '')\<close>: the leftmost match is removed.\<close>

fun removeReasoning :: "jsstring \<Rightarrow> jsstring" where
  "removeReasoning [] = []"
| "removeReasoning (c # cs) =
     (if ciPrefix (str ''reasoning:'') (c # cs) then dropWhile isWhiteSpace (drop 10 (c # cs))
      else c # removeReasoning cs)"

text \<open>\<open>s.split('\n')\<close>: the pieces between the separators, at least one.\<close>

fun split :: "nat \<Rightarrow> jsstring \<Rightarrow> jsstring list" where
  "split sep [] = [[]]"
| "split sep (c # cs) =
     (if c = sep then [] # split sep cs
      else (case split sep cs of [] \<Rightarrow> [[c]] | l # ls \<Rightarrow> (c # l) # ls))"

text \<open>\<open>m.charAt(0).toUpperCase() + m.slice(1).toLowerCase()\<close>\<close>

definition titleCase :: "caseTables \<Rightarrow> jsstring \<Rightarrow> jsstring" where
  "titleCase U m = toUpperCase U (take 1 m) @ toLowerCase U (drop 1 m)"

text \<open>
  The body of the loop over the lines of \<open>parseAIResponse\<close>, on the pair of the
  variables \<open>intent\<close> and \<open>reasoning\<close>.
\<close>

definition parseLine :: "caseTables \<Rightarrow> jsstring \<times> jsstring \<Rightarrow> jsstring \<Rightarrow> jsstring \<times> jsstring" where
  "parseLine U st line =
     (if startsWith (toLowerCase U line) (str ''intent:'') then
        (case intentMatch line of
           Some intentMatch1 \<Rightarrow> (titleCase U intentMatch1, snd st)
         | None \<Rightarrow> st)
      else if startsWith (toLowerCase U line) (str ''reasoning:'') then
        (fst st, trim (removeReasoning line))
      else st)"

text \<open>
  \<open>parseAIResponse(aiResponse)\<close>. The response is a string, so nothing in the
  \<open>try\<close> block throws and the \<open>catch\<close> branch is not reached; the empty string
  is falsy.
\<close>

definition parseAIResponse :: "caseTables \<Rightarrow> jsstring \<Rightarrow> intentResult" where
  "parseAIResponse U aiResponse =
     (if aiResponse = [] then getFallbackScore U None None
      else
        let lines = split 10 (trim aiResponse);
            st = foldl (parseLine U) (str ''Medium'', str ''AI analysis completed'') lines
        in \<lparr> intent = fst st, reasoning = snd st, aiPoints = intentToPoints (fst st),
             source = str ''gemini'' \<rparr>)"

text \<open>
  Exceptions are values: a thrown \<open>Error\<close> with its message. A computation that may
  throw returns \<open>Inl\<close> of the error.
\<close>

datatype exn = Error jsstring

fun message :: "exn \<Rightarrow> jsstring" where
  "message (Error m) = m"

definition tryCatch :: "exn + 'a \<Rightarrow> (exn \<Rightarrow> exn + 'a) \<Rightarrow> exn + 'a" where
  "tryCatch body handler = (case body of Inl e \<Rightarrow> handler e | Inr v \<Rightarrow> Inr v)"

text \<open>
  \<open>scoreLeadWithAI(lead, offer)\<close>. \<open>isConfigured\<close> is the field set by \<open>init\<close> from
  the environment. \<open>primary\<close> is the outcome of the first four statements of the
  \<open>try\<close> block (building the prompt, the call of the external model and reading its
  text): an error thrown by any of them, or the response text.
\<close>

definition scoreLeadWithAI ::
    "caseTables \<Rightarrow> bool \<Rightarrow> exn + jsstring \<Rightarrow> lead option \<Rightarrow> offer option \<Rightarrow> exn + intentResult" where
  "scoreLeadWithAI U isConfigured primary ld off =
     (if \<not> isConfigured then Inr (getFallbackScore U ld off)
      else tryCatch
             (case primary of Inl e \<Rightarrow> Inl e | Inr aiResponse \<Rightarrow> Inr (parseAIResponse U aiResponse))
             (\<lambda>error. Inr (getFallbackScore U ld off)))"


section \<open>Scoring orchestrator\<close>

text \<open>
  A scored lead copies the six fields of the lead and adds the keys \<open>intent\<close>,
  \<open>score\<close>, \<open>reasoning\<close>, \<open>breakdown\<close> (\<open>rule_score\<close>, \<open>ai_score\<close>,
  \<open>final_score\<close>) and \<open>details\<close>. The keys that clash with a field of the records
  above carry the prefix \<open>lead_\<close>. The details are the object of the \<open>try\<close>
  branch or the one of the \<open>catch\<close> branch (\<open>error: true\<close> and the message).
\<close>

datatype leadDetails =
    ScoreDetails (rule_breakdown: "jsstring list") (ai_source: jsstring) (ai_reasoning: jsstring)
  | ErrorDetails (error_message: jsstring)

record scoredLead = lead +
  lead_intent :: jsstring
  score :: int
  lead_reasoning :: jsstring
  rule_score :: int
  ai_score :: int
  final_score :: int
  lead_details :: leadDetails

text \<open>\<open>parts.join(sep)\<close>\<close>

fun join :: "jsstring \<Rightarrow> jsstring list \<Rightarrow> jsstring" where
  "join sep [] = []"
| "join sep [x] = x"
| "join sep (x # y # ys) = x @ sep @ join sep (y # ys)"

definition buildReasoning :: "breakdown \<Rightarrow> intentResult \<Rightarrow> int \<Rightarrow> jsstring" where
  "buildReasoning ruleScore aiScore finalScore =
     (let parts1 =
            (if total ruleScore > 0 then
               [str ''Rule analysis: '' @ showInt (total ruleScore) @ str ''/50 points'']
               @ (if length (details ruleScore) > 0
                  then [str ''('' @ join (str '', '') (details ruleScore) @ str '')'']
                  else [])
             else []);
          parts2 =
            (if reasoning aiScore \<noteq> [] \<and> reasoning aiScore \<noteq> str ''AI analysis completed''
             then [str ''AI analysis: '' @ reasoning aiScore]
             else []);
          parts3 =
            (if finalScore \<ge> 70 then [str ''High buying intent - strong fit and authority.'']
             else if finalScore \<ge> 40 then [str ''Medium buying intent - some positive indicators.'']
             else [str ''Low buying intent - limited fit or authority.''])
      in join (str '' '') (parts1 @ parts2 @ parts3))"

text \<open>Step 4 of the handler: the final intent level of a final score.\<close>

definition finalIntentOf :: "int \<Rightarrow> jsstring" where
  "finalIntentOf finalScore =
     (if finalScore \<ge> 70 then str ''High''
      else if finalScore \<ge> 40 then str ''Medium''
      else str ''Low'')"

text \<open>
  The \<open>try\<close> block of the loop body. The handler calls \<open>calculateRuleScore\<close> and awaits
  \<open>aiScorer.scoreLeadWithAI\<close>; the block is written for any outcome of the two calls
  (\<open>ruleOutcome\<close>, \<open>aiOutcome\<close>), so that the \<open>catch\<close> branch keeps its meaning: an
  error of either call leaves the block.
\<close>

definition tryScore :: "exn + breakdown \<Rightarrow> exn + intentResult \<Rightarrow> lead \<Rightarrow> exn + scoredLead" where
  "tryScore ruleOutcome aiOutcome ld =
     (case ruleOutcome of
        Inl e \<Rightarrow> Inl e
      | Inr ruleScore \<Rightarrow>
          (case aiOutcome of
             Inl e \<Rightarrow> Inl e
           | Inr aiScore \<Rightarrow>
               let finalScore = min (total ruleScore + aiPoints aiScore) 100;
                   finalIntent = finalIntentOf finalScore
               in Inr \<lparr> name = name ld, role = role ld, company = company ld,
                        industry = industry ld, location = location ld,
                        linkedin_bio = linkedin_bio ld,
                        lead_intent = finalIntent,
                        score = finalScore,
                        lead_reasoning = buildReasoning ruleScore aiScore finalScore,
                        rule_score = total ruleScore,
                        ai_score = aiPoints aiScore,
                        final_score = finalScore,
                        lead_details = ScoreDetails (details ruleScore) (source aiScore) (reasoning aiScore) \<rparr>))"

text \<open>The scored lead that the \<open>catch\<close> branch pushes.\<close>

definition errorLead :: "lead \<Rightarrow> exn \<Rightarrow> scoredLead" where
  "errorLead ld error =
     \<lparr> name = name ld, role = role ld, company = company ld,
       industry = industry ld, location = location ld,
       linkedin_bio = linkedin_bio ld,
       lead_intent = str ''Low'',
       score = 0,
       lead_reasoning = str ''Error during scoring: '' @ message error,
       rule_score = 0,
       ai_score = 0,
       final_score = 0,
       lead_details = ErrorDetails (message error) \<rparr>"

text \<open>
  The state of the loop is the pair of the arrays \<open>scoredLeads\<close> and \<open>errors\<close>; an
  entry of \<open>errors\<close> is the name of the lead and the message. The elements of
  \<open>currentLeads.data\<close> are the objects that the upload route built, so reading
  \<open>lead.name\<close> in the \<open>catch\<close> branch throws nothing. \<open>rule\<close> is the rule
  engine as the handler calls it, \<open>ai i\<close> the \<open>i\<close>-th call of the classifier, which
  awaits an external service and need not answer the same lead twice in the same way.
\<close>

type_synonym loopState = "scoredLead list \<times> (jsstring option \<times> jsstring) list"

definition scoreStep ::
    "(lead \<Rightarrow> offer \<Rightarrow> exn + breakdown) \<Rightarrow> (nat \<Rightarrow> lead \<Rightarrow> offer \<Rightarrow> exn + intentResult)
     \<Rightarrow> offer \<Rightarrow> lead \<Rightarrow> nat \<Rightarrow> loopState \<Rightarrow> loopState" where
  "scoreStep rule ai currentOffer ld i st =
     (case tryScore (rule ld currentOffer) (ai i ld currentOffer) ld of
        Inr scoredLead \<Rightarrow> (fst st @ [scoredLead], snd st)
      | Inl error \<Rightarrow> (fst st @ [errorLead ld error], snd st @ [(name ld, message error)]))"

function scoreLoop ::
    "(lead \<Rightarrow> offer \<Rightarrow> exn + breakdown) \<Rightarrow> (nat \<Rightarrow> lead \<Rightarrow> offer \<Rightarrow> exn + intentResult)
     \<Rightarrow> offer \<Rightarrow> lead list \<Rightarrow> nat \<Rightarrow> loopState \<Rightarrow> loopState" where
  "scoreLoop rule ai currentOffer leads i st =
     (if i < length leads
      then scoreLoop rule ai currentOffer leads (i + 1) (scoreStep rule ai currentOffer (leads ! i) i st)
      else st)"
  by pat_completeness auto
termination
  by (relation "measure (\<lambda>(rule, ai, currentOffer, leads, i, st). length leads - i)") auto

declare scoreLoop.simps [simp del]

text \<open>
  The loop of \<open>POST /api/score\<close> with the two functions of this repository. The
  handler reaches it only with a current offer and a current lead list (it answers 400
  otherwise). The rule engine throws nothing; the classifier is \<open>scoreLeadWithAI\<close>,
  whose \<open>i\<close>-th primary call has the outcome \<open>primary i\<close>.
\<close>

definition scoreLeads ::
    "caseTables \<Rightarrow> bool \<Rightarrow> (nat \<Rightarrow> exn + jsstring) \<Rightarrow> offer \<Rightarrow> lead list \<Rightarrow> loopState" where
  "scoreLeads U isConfigured primary currentOffer leads =
     scoreLoop (\<lambda>ld off. Inr (calculateRuleScore U ld (Some off)))
               (\<lambda>i ld off. scoreLeadWithAI U isConfigured (primary i) (Some ld) (Some off))
               currentOffer leads 0 ([], [])"


section \<open>Summary statistics\<close>

text \<open>
  A JavaScript number is a double: a finite value, \<open>NaN\<close>, \<open>Infinity\<close> or
  \<open>-Infinity\<close>. A finite value is represented by the rational that the arithmetic of
  the source approximates; the theorems below are about the empty sequence, where no
  finite value is rounded.
\<close>

datatype jsnum = Fin rat | NaN | PosInf | NegInf

text \<open>\<open>x / y\<close> for finite \<open>x\<close> and a length \<open>y\<close> (so a zero is \<open>+0\<close>).\<close>

definition jsDivide :: "rat \<Rightarrow> rat \<Rightarrow> jsnum" where
  "jsDivide x y =
     (if y = 0 then (if x = 0 then NaN else if x > 0 then PosInf else NegInf)
      else Fin (x / y))"

text \<open>\<open>x * 100\<close>\<close>

fun times100 :: "jsnum \<Rightarrow> jsnum" where
  "times100 (Fin x) = Fin (x * 100)"
| "times100 NaN = NaN"
| "times100 PosInf = PosInf"
| "times100 NegInf = NegInf"

text \<open>\<open>Math.round(x)\<close>: a half is rounded up.\<close>

fun mathRound :: "jsnum \<Rightarrow> jsnum" where
  "mathRound (Fin x) = Fin (of_int \<lfloor>x + 1 / 2\<rfloor>)"
| "mathRound NaN = NaN"
| "mathRound PosInf = PosInf"
| "mathRound NegInf = NegInf"

text \<open>
  \<open>Math.max(...scores)\<close> and \<open>Math.min(...scores)\<close> of finite scores. The spread
  passes every score as an argument of the call. Without an argument the results are
  \<open>-Infinity\<close> and \<open>Infinity\<close>. An engine bounds the number of arguments of a call
  (by the size of its stack), and a call with more throws a \<open>RangeError\<close>. The bound
  is the engine's and no part of the repository: it is the parameter \<open>maxArguments\<close>.
  The \<open>RangeError\<close> is an error with the engine's message.
\<close>

definition tooManyArguments :: exn where
  "tooManyArguments = Error (str ''Maximum call stack size exceeded'')"

definition mathMax :: "nat \<Rightarrow> int list \<Rightarrow> exn + jsnum" where
  "mathMax maxArguments scores =
     (if length scores > maxArguments then Inl tooManyArguments
      else Inr (case scores of [] \<Rightarrow> NegInf | x # xs \<Rightarrow> Fin (of_int (fold max xs x))))"

definition mathMin :: "nat \<Rightarrow> int list \<Rightarrow> exn + jsnum" where
  "mathMin maxArguments scores =
     (if length scores > maxArguments then Inl tooManyArguments
      else Inr (case scores of [] \<Rightarrow> PosInf | x # xs \<Rightarrow> Fin (of_int (fold min xs x))))"

text \<open>
  The summary. A percentage of the source is the string \<open>x.toFixed(1) + '%'\<close>; the
  record keeps the number \<open>x\<close> that is printed (\<open>NaN\<close> prints as \<open>NaN%\<close>).
  \<open>calculateSummaryStats\<close> has no \<open>try\<close>: an error of \<open>Math.max\<close> or
  \<open>Math.min\<close> leaves it.
\<close>

record summary =
  total_leads :: nat
  high :: nat
  medium :: nat
  low :: nat
  pct_high :: jsnum
  pct_medium :: jsnum
  pct_low :: jsnum
  average :: jsnum
  maximum :: jsnum
  minimum :: jsnum

definition calculateSummaryStats :: "nat \<Rightarrow> scoredLead list \<Rightarrow> exn + summary" where
  "calculateSummaryStats maxArguments scoredLeads =
     (let total1 = length scoredLeads;
          highIntent = length (filter (\<lambda>ld. lead_intent ld = str ''High'') scoredLeads);
          mediumIntent = length (filter (\<lambda>ld. lead_intent ld = str ''Medium'') scoredLeads);
          lowIntent = length (filter (\<lambda>ld. lead_intent ld = str ''Low'') scoredLeads);
          scores = map score scoredLeads;
          avgScore = jsDivide (of_int (foldl (\<lambda>sum sc. sum + sc) 0 scores)) (of_nat total1)
      in case mathMax maxArguments scores of
           Inl e \<Rightarrow> Inl e
         | Inr maxScore \<Rightarrow>
             (case mathMin maxArguments scores of
                Inl e \<Rightarrow> Inl e
              | Inr minScore \<Rightarrow>
                  Inr \<lparr> total_leads = total1,
                        high = highIntent, medium = mediumIntent, low = lowIntent,
                        pct_high = times100 (jsDivide (of_nat highIntent) (of_nat total1)),
                        pct_medium = times100 (jsDivide (of_nat mediumIntent) (of_nat total1)),
                        pct_low = times100 (jsDivide (of_nat lowIntent) (of_nat total1)),
                        average = mathRound avgScore,
                        maximum = maxScore,
                        minimum = minScore \<rparr>))"


section \<open>The specification's own terms\<close>

text \<open>
  The specification counts the fields that are non-empty after trimming. These two
  definitions follow its words; the theorems compare them with the functions of the
  source.
\<close>

definition nonEmptyAfterTrim :: "jsstring option \<Rightarrow> bool" where
  "nonEmptyAfterTrim f = (case f of None \<Rightarrow> False | Some s \<Rightarrow> trim s \<noteq> [])"

definition presentCount :: "lead \<Rightarrow> nat" where
  "presentCount l =
     of_bool (nonEmptyAfterTrim (name l)) + of_bool (nonEmptyAfterTrim (role l))
     + of_bool (nonEmptyAfterTrim (company l)) + of_bool (nonEmptyAfterTrim (industry l))
     + of_bool (nonEmptyAfterTrim (location l)) + of_bool (nonEmptyAfterTrim (linkedin_bio l))"

text \<open>
  The three conditions of the fallback classifier in the specification's words: the role
  contains a keyword of the small decision-maker list, the industry contains a keyword of
  the small tech list, and the four core fields are non-empty after trimming.
\<close>

definition roleHasKeyword :: "caseTables \<Rightarrow> lead \<Rightarrow> bool" where
  "roleHasKeyword U l =
     (case role l of None \<Rightarrow> False
      | Some r \<Rightarrow> (\<exists>k\<in>set fallbackRoleKeywords. includesStr (toLowerCase U r) k))"

definition industryHasKeyword :: "caseTables \<Rightarrow> lead \<Rightarrow> bool" where
  "industryHasKeyword U l =
     (case industry l of None \<Rightarrow> False
      | Some i \<Rightarrow> (\<exists>k\<in>set fallbackIndustryKeywords. includesStr (toLowerCase U i) k))"

definition coreFieldsPresent :: "lead \<Rightarrow> bool" where
  "coreFieldsPresent l =
     (nonEmptyAfterTrim (name l) \<and> nonEmptyAfterTrim (role l)
      \<and> nonEmptyAfterTrim (company l) \<and> nonEmptyAfterTrim (industry l))"

text \<open>The result for an absent lead.\<close>

definition insufficientData :: intentResult where
  "insufficientData =
     \<lparr> intent = str ''Low'', reasoning = str ''Insufficient lead data for analysis'',
       aiPoints = 10, source = str ''fallback'' \<rparr>"

text \<open>
  The three intent labels, and the two kinds of line that the parser reads: a line with
  the prefix \<open>intent:\<close> in which the pattern of the labels matches, and a line with the
  prefix \<open>reasoning:\<close>.
\<close>

definition labels :: "jsstring set" where
  "labels = {str ''High'', str ''Medium'', str ''Low''}"

definition isIntentLine :: "caseTables \<Rightarrow> jsstring \<Rightarrow> bool" where
  "isIntentLine U line =
     (startsWith (toLowerCase U line) (str ''intent:'') \<and> intentMatch line \<noteq> None)"

definition isReasoningLine :: "caseTables \<Rightarrow> jsstring \<Rightarrow> bool" where
  "isReasoningLine U line = startsWith (toLowerCase U line) (str ''reasoning:'')"

text \<open>
  The scored lead that one iteration of the loop appends: the one of the \<open>try\<close> block,
  or the placeholder of the \<open>catch\<close> branch when the block throws.
\<close>

definition scoredEntry :: "exn + breakdown \<Rightarrow> exn + intentResult \<Rightarrow> lead \<Rightarrow> scoredLead" where
  "scoredEntry ruleOutcome aiOutcome ld =
     (case tryScore ruleOutcome aiOutcome ld of Inr s \<Rightarrow> s | Inl e \<Rightarrow> errorLead ld e)"


section \<open>Sample data\<close>

text \<open>The offer and the leads of the unit tests of the rule engine.\<close>

definition sampleOffer :: offer where
  "sampleOffer =
     \<lparr> offer_name = str ''AI Outreach Automation'',
       value_props = Some [str ''24/7 outreach'', str ''6x more meetings''],
       ideal_use_cases = Some [str ''B2B SaaS mid-market''] \<rparr>"

definition sampleLead :: lead where
  "sampleLead =
     \<lparr> name = Some (str ''John Smith''), role = Some (str ''CEO''),
       company = Some (str ''TechCorp''), industry = Some (str ''SaaS''),
       location = Some (str ''New York''),
       linkedin_bio = Some (str ''Chief Executive Officer leading digital transformation'') \<rparr>"

definition partialLead :: lead where
  "partialLead =
     \<lparr> name = Some (str ''Jane Doe''), role = Some (str ''Developer''),
       company = Some (str ''TechCorp''), industry = Some (str ''Finance''),
       location = Some [],
       linkedin_bio = Some (str ''Software developer'') \<rparr>"

text \<open>
  A rule engine that throws on the first sample lead and is the rule engine of the
  repository elsewhere, and the classifier without a credential: they show the
  \<open>catch\<close> branch of the loop at work.
\<close>

definition failingRule :: "lead \<Rightarrow> offer \<Rightarrow> exn + breakdown" where
  "failingRule ld off =
     (if ld = sampleLead then Inl (Error (str ''unexpected''))
      else Inr (calculateRuleScore sampleTables ld (Some off)))"

definition fallbackOnly :: "nat \<Rightarrow> lead \<Rightarrow> offer \<Rightarrow> exn + intentResult" where
  "fallbackOnly i ld off =
     scoreLeadWithAI sampleTables False (Inl (Error (str ''not configured''))) (Some ld) (Some off)"

text \<open>A decision maker outside the tech industries, and a response of the model.\<close>

definition farmLead :: lead where
  "farmLead = sampleLead\<lparr>industry := Some (str ''Agriculture'')\<rparr>"

definition sampleResponse :: jsstring where
  "sampleResponse = str ''Intent: High'' @ [10] @ str ''Reasoning: VP of Sales fits the ICP.''"



section \<open>Rule engine: bounds and completeness\<close>

lemma calculateRoleScore_range: "calculateRoleScore U r \<in> {0, 10, 20}"
  by (simp add: calculateRoleScore_def Let_def split: option.split)

lemma calculateIndustryScore_range: "calculateIndustryScore U i off \<in> {0, 10, 20}"
  by (simp add: calculateIndustryScore_def Let_def split: option.split)

lemma countCompleteFields_le: "countCompleteFields l \<le> 6"
proof -
  have "countCompleteFields l \<le> length requiredFields"
    unfolding countCompleteFields_def by (rule length_filter_le)
  then show ?thesis by (simp add: requiredFields_def)
qed

lemma calculateCompletenessScore_range:
  "0 \<le> calculateCompletenessScore l \<and> calculateCompletenessScore l \<le> 10"
proof -
  let ?n = "countCompleteFields l"
  have le: "?n \<le> 6" by (rule countCompleteFields_le)
  have "0 \<le> rat_of_nat ?n / 6 * 10" by simp
  moreover have "rat_of_nat ?n / 6 * 10 \<le> 10" using le by simp
  ultimately have "0 \<le> \<lfloor>rat_of_nat ?n / 6 * 10\<rfloor> \<and> \<lfloor>rat_of_nat ?n / 6 * 10\<rfloor> \<le> 10"
    by (simp add: floor_le_iff le_floor_iff)
  then show ?thesis
    by (simp add: calculateCompletenessScore_def totalFields_def Let_def)
qed

text \<open>
  C8. For every lead and every offer (also an absent one) the total of the rule score
  lies between 0 and 50 and is exactly the sum of the role score, the industry score and
  the completeness score: the sub-scores are one of 0, 10, 20 (role, industry) and between
  0 and 10 (completeness), so the cap at 50 never changes the sum.
\<close>

theorem calculateRuleScore_total:
  "0 \<le> total (calculateRuleScore U l off)
   \<and> total (calculateRuleScore U l off) \<le> 50
   \<and> total (calculateRuleScore U l off)
       = roleScore (calculateRuleScore U l off) + industryScore (calculateRuleScore U l off)
         + completenessScore (calculateRuleScore U l off)
   \<and> roleScore (calculateRuleScore U l off) \<in> {0, 10, 20}
   \<and> industryScore (calculateRuleScore U l off) \<in> {0, 10, 20}
   \<and> 0 \<le> completenessScore (calculateRuleScore U l off)
   \<and> completenessScore (calculateRuleScore U l off) \<le> 10"
proof -
  have r: "calculateRoleScore U (role l) \<in> {0, 10, 20}"
    by (rule calculateRoleScore_range)
  have i: "calculateIndustryScore U (industry l) off \<in> {0, 10, 20}"
    by (rule calculateIndustryScore_range)
  have c: "0 \<le> calculateCompletenessScore l \<and> calculateCompletenessScore l \<le> 10"
    by (rule calculateCompletenessScore_range)
  from r i c show ?thesis
    by (auto simp add: calculateRuleScore_def Let_def)
qed

lemma sampleLead_role: "calculateRoleScore sampleTables (role sampleLead) = 20"
  by (simp add: sampleLead_def calculateRoleScore_def DECISION_MAKER_ROLES_def str_def
      toLowerCase_def asciiLower_def startsWith_def)

lemma sampleLead_industry:
  "calculateIndustryScore sampleTables (industry sampleLead) (Some sampleOffer) = 20"
  by (simp add: sampleLead_def sampleOffer_def calculateIndustryScore_def matchesUseCase_def
      ICP_INDUSTRIES_def str_def toLowerCase_def asciiLower_def startsWith_def)

lemma sampleLead_completeness: "calculateCompletenessScore sampleLead = 10"
  by (simp add: calculateCompletenessScore_def countCompleteFields_def requiredFields_def
      isComplete_def truthyAnd_def totalFields_def sampleLead_def trim_def isWhiteSpace_def str_def)

lemma sampleLead_total:
  "total (calculateRuleScore sampleTables sampleLead (Some sampleOffer)) = 50"
  by (simp add: calculateRuleScore_def Let_def sampleLead_role sampleLead_industry
      sampleLead_completeness)

theorem calculateRuleScore_total_witness:
  "total (calculateRuleScore sampleTables sampleLead (Some sampleOffer)) = 50
   \<and> roleScore (calculateRuleScore sampleTables sampleLead (Some sampleOffer)) = 20
   \<and> industryScore (calculateRuleScore sampleTables sampleLead (Some sampleOffer)) = 20
   \<and> completenessScore (calculateRuleScore sampleTables sampleLead (Some sampleOffer)) = 10"
  using calculateRuleScore_total [of sampleTables sampleLead "Some sampleOffer"] sampleLead_total
  by (simp add: calculateRuleScore_def Let_def sampleLead_role sampleLead_industry
      sampleLead_completeness)

lemma trim_Nil: "trim [] = []"
  by (simp add: trim_def)

lemma isComplete_nonEmptyAfterTrim: "isComplete f = nonEmptyAfterTrim f"
  by (cases f) (auto simp add: isComplete_def truthyAnd_def nonEmptyAfterTrim_def trim_Nil)

lemma countCompleteFields_presentCount: "countCompleteFields l = presentCount l"
  by (simp add: countCompleteFields_def requiredFields_def presentCount_def
      isComplete_nonEmptyAfterTrim)

lemma presentCount_six:
  "presentCount l = 6 \<longleftrightarrow>
     nonEmptyAfterTrim (name l) \<and> nonEmptyAfterTrim (role l) \<and> nonEmptyAfterTrim (company l)
     \<and> nonEmptyAfterTrim (industry l) \<and> nonEmptyAfterTrim (location l)
     \<and> nonEmptyAfterTrim (linkedin_bio l)"
  by (simp add: presentCount_def of_bool_def)

lemma floor_five_sixths: "\<lfloor>rat_of_nat 5 / 6 * 10\<rfloor> = 8"
  by (simp add: floor_eq_iff)

text \<open>
  C5. For every lead the completeness score is 10 exactly when all six required fields
  are non-empty after trimming (the count of such fields is 6), and is the floor of
  count / 6 * 10 otherwise; a lead with exactly five of the six fields present scores 8.
\<close>

theorem calculateCompletenessScore_spec:
  "calculateCompletenessScore l
     = (if presentCount l = 6 then 10 else \<lfloor>rat_of_nat (presentCount l) / 6 * 10\<rfloor>)
   \<and> (presentCount l = 6 \<longleftrightarrow>
        nonEmptyAfterTrim (name l) \<and> nonEmptyAfterTrim (role l) \<and> nonEmptyAfterTrim (company l)
        \<and> nonEmptyAfterTrim (industry l) \<and> nonEmptyAfterTrim (location l)
        \<and> nonEmptyAfterTrim (linkedin_bio l))
   \<and> (presentCount l = 5 \<longrightarrow> calculateCompletenessScore l = 8)"
proof -
  have eq: "calculateCompletenessScore l
     = (if presentCount l = 6 then 10 else \<lfloor>rat_of_nat (presentCount l) / 6 * 10\<rfloor>)"
    by (simp add: calculateCompletenessScore_def totalFields_def Let_def
        countCompleteFields_presentCount)
  have five: "presentCount l = 5 \<longrightarrow> calculateCompletenessScore l = 8"
    using floor_five_sixths by (simp add: eq)
  from eq five presentCount_six show ?thesis by blast
qed

lemma presentCount_partialLead: "presentCount partialLead = 5"
  by (simp add: presentCount_def partialLead_def nonEmptyAfterTrim_def trim_def
      isWhiteSpace_def str_def)

theorem calculateCompletenessScore_spec_witness:
  "presentCount partialLead = 5 \<and> calculateCompletenessScore partialLead = 8"
  using calculateCompletenessScore_spec [of partialLead] presentCount_partialLead by simp


section \<open>Rule engine: case of the role\<close>

lemma lowerFrom_ascii: "\<forall>c\<in>set cs. c < 128 \<Longrightarrow> lowerFrom U s i cs = map asciiLower cs"
  by (induction cs arbitrary: i) simp_all

lemma upperFrom_ascii: "\<forall>c\<in>set cs. c < 128 \<Longrightarrow> upperFrom U s i cs = map asciiUpper cs"
  by (induction cs arbitrary: i) simp_all

lemma toLowerCase_ascii: "\<forall>c\<in>set s. c < 128 \<Longrightarrow> toLowerCase U s = map asciiLower s"
  by (simp add: toLowerCase_def lowerFrom_ascii)

lemma toUpperCase_ascii: "\<forall>c\<in>set s. c < 128 \<Longrightarrow> toUpperCase U s = map asciiUpper s"
  by (simp add: toUpperCase_def upperFrom_ascii)

lemma asciiUpper_less: "c < 128 \<Longrightarrow> asciiUpper c < 128"
  by (auto simp add: asciiUpper_def)

lemma asciiLower_less: "c < 128 \<Longrightarrow> asciiLower c < 128"
  by (simp add: asciiLower_def)

lemma asciiLower_asciiUpper: "asciiLower (asciiUpper c) = asciiLower c"
  by (auto simp add: asciiLower_def asciiUpper_def)

lemma asciiLower_idem: "asciiLower (asciiLower c) = asciiLower c"
  by (simp add: asciiLower_def)

lemma toLowerCase_toUpperCase_ascii:
  assumes "\<forall>c\<in>set s. c < 128"
  shows "toLowerCase U (toUpperCase U s) = toLowerCase U s"
proof -
  have up: "toUpperCase U s = map asciiUpper s"
    using assms by (rule toUpperCase_ascii)
  have "\<forall>c\<in>set (map asciiUpper s). c < 128"
    using assms by (simp add: asciiUpper_less)
  then have "toLowerCase U (map asciiUpper s) = map asciiLower (map asciiUpper s)"
    by (rule toLowerCase_ascii)
  also have "\<dots> = map asciiLower s"
    by (simp add: asciiLower_asciiUpper)
  also have "\<dots> = toLowerCase U s"
    using assms by (simp add: toLowerCase_ascii)
  finally show ?thesis by (simp add: up)
qed

lemma toLowerCase_idem_ascii:
  assumes "\<forall>c\<in>set s. c < 128"
  shows "toLowerCase U (toLowerCase U s) = toLowerCase U s"
proof -
  have lo: "toLowerCase U s = map asciiLower s"
    using assms by (rule toLowerCase_ascii)
  have "\<forall>c\<in>set (map asciiLower s). c < 128"
    using assms by (simp add: asciiLower_less)
  then have "toLowerCase U (map asciiLower s) = map asciiLower (map asciiLower s)"
    by (rule toLowerCase_ascii)
  then show ?thesis by (simp add: lo asciiLower_idem)
qed

lemma calculateRoleScore_lowered:
  assumes "toLowerCase U r' = toLowerCase U r" and "r' = [] \<longleftrightarrow> r = []"
  shows "calculateRoleScore U (Some r') = calculateRoleScore U (Some r)"
  using assms by (simp add: calculateRoleScore_def)

text \<open>
  C9, as amended. For every role made of ASCII characters the role score of the role,
  of the role in upper case and of the role in lower case are equal; more generally the
  score of a converted role is the score of the role whenever the converted role has the
  lower case of the role and is empty only if the role is. For every role the score is
  one of 0, 10, 20: it is 20 when the lower-cased role includes a decision-maker keyword
  (whether or not it includes an influencer keyword), 10 when it includes no
  decision-maker keyword and an influencer keyword, and 0 otherwise, also for a missing or
  empty role.
\<close>

theorem calculateRoleScore_case_insensitive_ascii:
  "((\<forall>c\<in>set r. c < 128) \<longrightarrow>
      calculateRoleScore U (Some (toUpperCase U r)) = calculateRoleScore U (Some r)
      \<and> calculateRoleScore U (Some (toLowerCase U r)) = calculateRoleScore U (Some r))
   \<and> (toLowerCase U r' = toLowerCase U r \<and> (r' = [] \<longleftrightarrow> r = []) \<longrightarrow>
        calculateRoleScore U (Some r') = calculateRoleScore U (Some r))
   \<and> calculateRoleScore U ro \<in> {0, 10, 20}
   \<and> (r \<noteq> [] \<and> (\<exists>k\<in>set DECISION_MAKER_ROLES. includesStr (toLowerCase U r) k)
        \<longrightarrow> calculateRoleScore U (Some r) = 20)
   \<and> (r \<noteq> [] \<and> \<not> (\<exists>k\<in>set DECISION_MAKER_ROLES. includesStr (toLowerCase U r) k)
        \<and> (\<exists>k\<in>set INFLUENCER_ROLES. includesStr (toLowerCase U r) k)
        \<longrightarrow> calculateRoleScore U (Some r) = 10)
   \<and> (\<not> (\<exists>k\<in>set DECISION_MAKER_ROLES. includesStr (toLowerCase U r) k)
        \<and> \<not> (\<exists>k\<in>set INFLUENCER_ROLES. includesStr (toLowerCase U r) k)
        \<longrightarrow> calculateRoleScore U (Some r) = 0)
   \<and> calculateRoleScore U None = 0 \<and> calculateRoleScore U (Some []) = 0"
proof -
  have ci: "calculateRoleScore U (Some (toUpperCase U r)) = calculateRoleScore U (Some r)
      \<and> calculateRoleScore U (Some (toLowerCase U r)) = calculateRoleScore U (Some r)"
    if a: "\<forall>c\<in>set r. c < 128"
  proof
    have "toUpperCase U r = [] \<longleftrightarrow> r = []"
      using a by (simp add: toUpperCase_ascii)
    with toLowerCase_toUpperCase_ascii [OF a]
    show "calculateRoleScore U (Some (toUpperCase U r)) = calculateRoleScore U (Some r)"
      by (rule calculateRoleScore_lowered)
    have "toLowerCase U r = [] \<longleftrightarrow> r = []"
      using a by (simp add: toLowerCase_ascii)
    with toLowerCase_idem_ascii [OF a]
    show "calculateRoleScore U (Some (toLowerCase U r)) = calculateRoleScore U (Some r)"
      by (rule calculateRoleScore_lowered)
  qed
  have rng: "calculateRoleScore U ro \<in> {0, 10, 20}"
    by (rule calculateRoleScore_range)
  have cases: "calculateRoleScore U (Some r) =
      (if r = [] then 0
       else if \<exists>k\<in>set DECISION_MAKER_ROLES. includesStr (toLowerCase U r) k then 20
       else if \<exists>k\<in>set INFLUENCER_ROLES. includesStr (toLowerCase U r) k then 10
       else 0)"
    by (simp add: calculateRoleScore_def Let_def list_ex_iff)
  have dm: "r \<noteq> [] \<and> (\<exists>k\<in>set DECISION_MAKER_ROLES. includesStr (toLowerCase U r) k)
        \<longrightarrow> calculateRoleScore U (Some r) = 20"
    by (simp add: cases)
  have infl: "r \<noteq> [] \<and> \<not> (\<exists>k\<in>set DECISION_MAKER_ROLES. includesStr (toLowerCase U r) k)
        \<and> (\<exists>k\<in>set INFLUENCER_ROLES. includesStr (toLowerCase U r) k)
        \<longrightarrow> calculateRoleScore U (Some r) = 10"
    by (simp add: cases)
  have other: "\<not> (\<exists>k\<in>set DECISION_MAKER_ROLES. includesStr (toLowerCase U r) k)
        \<and> \<not> (\<exists>k\<in>set INFLUENCER_ROLES. includesStr (toLowerCase U r) k)
        \<longrightarrow> calculateRoleScore U (Some r) = 0"
    by (simp add: cases)
  have none: "calculateRoleScore U None = 0" and empty: "calculateRoleScore U (Some []) = 0"
    by (simp_all add: calculateRoleScore_def)
  have gen: "toLowerCase U r' = toLowerCase U r \<and> (r' = [] \<longleftrightarrow> r = []) \<longrightarrow>
        calculateRoleScore U (Some r') = calculateRoleScore U (Some r)"
    using calculateRoleScore_lowered [of U r' r] by blast
  have asc: "(\<forall>c\<in>set r. c < 128) \<longrightarrow>
      calculateRoleScore U (Some (toUpperCase U r)) = calculateRoleScore U (Some r)
      \<and> calculateRoleScore U (Some (toLowerCase U r)) = calculateRoleScore U (Some r)"
    using ci by (rule impI)
  from asc gen rng dm infl other none empty show ?thesis
    by - (intro conjI; assumption)
qed

lemma senior_developer_keywords:
  "str ''Senior developer'' \<noteq> []
   \<and> \<not> (\<exists>k\<in>set DECISION_MAKER_ROLES. includesStr (toLowerCase sampleTables (str ''Senior developer'')) k)
   \<and> (\<exists>k\<in>set INFLUENCER_ROLES. includesStr (toLowerCase sampleTables (str ''Senior developer'')) k)"
  by (simp add: DECISION_MAKER_ROLES_def INFLUENCER_ROLES_def str_def toLowerCase_def
      asciiLower_def startsWith_def)

theorem calculateRoleScore_case_insensitive_ascii_witness:
  "calculateRoleScore sampleTables (Some (toUpperCase sampleTables (str ''Senior developer'')))
     = calculateRoleScore sampleTables (Some (str ''Senior developer''))
   \<and> calculateRoleScore sampleTables (Some (toLowerCase sampleTables (str ''Senior developer'')))
     = calculateRoleScore sampleTables (Some (str ''Senior developer''))
   \<and> toUpperCase sampleTables (str ''Senior developer'') = str ''SENIOR DEVELOPER''
   \<and> calculateRoleScore sampleTables (Some (str ''Senior developer'')) = 10"
proof -
  have ascii: "\<forall>c\<in>set (str ''Senior developer''). c < 128"
    by (simp add: str_def)
  have up: "toUpperCase sampleTables (str ''Senior developer'') = str ''SENIOR DEVELOPER''"
    by (simp add: toUpperCase_def str_def asciiUpper_def)
  note t = calculateRoleScore_case_insensitive_ascii
         [of "str ''Senior developer''" sampleTables "[]" None]
  note asc = t [THEN conjunct1]
  note infl = t [THEN conjunct2, THEN conjunct2, THEN conjunct2, THEN conjunct2, THEN conjunct1]
  from mp [OF asc ascii] up mp [OF infl senior_developer_keywords] show ?thesis
    by (elim conjE) (intro conjI; assumption)
qed

text \<open>
  The claim as stated, for every role string, fails at a role with a non-ASCII letter
  whose upper case is an ASCII letter: the role \<open>pre\<close> U+017F \<open>ident\<close> includes no
  keyword and scores 0, its upper case is \<open>PRESIDENT\<close> and scores 20.
\<close>

theorem calculateRoleScore_upper_counterexample:
  "calculateRoleScore sampleTables (Some (toUpperCase sampleTables (str ''pre'' @ [longS] @ str ''ident'')))
     \<noteq> calculateRoleScore sampleTables (Some (str ''pre'' @ [longS] @ str ''ident''))
   \<and> calculateRoleScore sampleTables (Some (str ''pre'' @ [longS] @ str ''ident'')) = 0
   \<and> toUpperCase sampleTables (str ''pre'' @ [longS] @ str ''ident'') = str ''PRESIDENT''
   \<and> calculateRoleScore sampleTables
        (Some (toUpperCase sampleTables (str ''pre'' @ [longS] @ str ''ident''))) = 20"
  by (simp add: calculateRoleScore_def str_def toLowerCase_def toUpperCase_def sampleTables_def longS_def
      DECISION_MAKER_ROLES_def INFLUENCER_ROLES_def startsWith_def asciiLower_def asciiUpper_def)


section \<open>Intent classifier: fallback and failure\<close>

lemma fallbackRoleKeywords_nonempty: "k \<in> set fallbackRoleKeywords \<Longrightarrow> k \<noteq> []"
  by (auto simp add: fallbackRoleKeywords_def str_def)

lemma fallbackIndustryKeywords_nonempty: "k \<in> set fallbackIndustryKeywords \<Longrightarrow> k \<noteq> []"
  by (auto simp add: fallbackIndustryKeywords_def str_def)

lemma toLowerCase_Nil: "toLowerCase U [] = []"
  by (simp add: toLowerCase_def)

lemma hasDecisionMakerRole_roleHasKeyword: "hasDecisionMakerRole U l = roleHasKeyword U l"
  by (cases "role l")
    (auto simp add: hasDecisionMakerRole_def roleHasKeyword_def truthyAnd_def list_ex_iff
      toLowerCase_Nil dest: fallbackRoleKeywords_nonempty)

lemma hasTechIndustry_industryHasKeyword: "hasTechIndustry U l = industryHasKeyword U l"
  by (cases "industry l")
    (auto simp add: hasTechIndustry_def industryHasKeyword_def truthyAnd_def list_ex_iff
      toLowerCase_Nil dest: fallbackIndustryKeywords_nonempty)

lemma hasCompleteProfile_coreFieldsPresent: "hasCompleteProfile l = coreFieldsPresent l"
proof -
  have "truthyAnd f (\<lambda>s. length (trim s) > 0) = nonEmptyAfterTrim f" for f
    using isComplete_nonEmptyAfterTrim [of f] by (simp add: isComplete_def)
  then show ?thesis
    by (simp add: hasCompleteProfile_def coreFieldsPresent_def)
qed

text \<open>
  C3. An absent lead yields Low with 10 points, the insufficient-data reasoning and the
  source fallback, whatever the three conditions. For a lead that is present: High with
  50 points when the role contains a decision-maker keyword, the industry contains a tech
  keyword and the four core fields are non-empty after trimming; Medium with 30 points
  when the role or the industry condition holds but not all three; Low with 10 points
  when neither the role nor the industry condition holds. The source is always fallback.
\<close>

theorem getFallbackScore_spec:
  "getFallbackScore U None off = insufficientData
   \<and> (roleHasKeyword U l \<and> industryHasKeyword U l \<and> coreFieldsPresent l \<longrightarrow>
        intent (getFallbackScore U (Some l) off) = str ''High''
        \<and> aiPoints (getFallbackScore U (Some l) off) = 50)
   \<and> ((roleHasKeyword U l \<or> industryHasKeyword U l)
       \<and> \<not> (roleHasKeyword U l \<and> industryHasKeyword U l \<and> coreFieldsPresent l) \<longrightarrow>
        intent (getFallbackScore U (Some l) off) = str ''Medium''
        \<and> aiPoints (getFallbackScore U (Some l) off) = 30)
   \<and> (\<not> roleHasKeyword U l \<and> \<not> industryHasKeyword U l \<longrightarrow>
        intent (getFallbackScore U (Some l) off) = str ''Low''
        \<and> aiPoints (getFallbackScore U (Some l) off) = 10)
   \<and> source (getFallbackScore U ld off) = str ''fallback''"
proof -
  have none: "getFallbackScore U None off = insufficientData"
    by (simp add: getFallbackScore_def insufficientData_def)
  have src: "source (getFallbackScore U ld off) = str ''fallback''"
    by (cases ld) (simp_all add: getFallbackScore_def)
  have some: "getFallbackScore U (Some l) off =
      (if roleHasKeyword U l \<and> industryHasKeyword U l \<and> coreFieldsPresent l then
         \<lparr> intent = str ''High'',
           reasoning = str ''Fallback analysis: ''
             @ str ''Decision maker in tech industry with complete profile indicates high intent'',
           aiPoints = 50, source = str ''fallback'' \<rparr>
       else if roleHasKeyword U l \<or> industryHasKeyword U l then
         \<lparr> intent = str ''Medium'',
           reasoning = str ''Fallback analysis: ''
             @ str ''Some positive indicators but not all criteria met'',
           aiPoints = 30, source = str ''fallback'' \<rparr>
       else
         \<lparr> intent = str ''Low'',
           reasoning = str ''Fallback analysis: ''
             @ str ''Limited indicators of buying intent or decision-making authority'',
           aiPoints = 10, source = str ''fallback'' \<rparr>)"
    by (simp add: getFallbackScore_def hasDecisionMakerRole_roleHasKeyword
        hasTechIndustry_industryHasKeyword hasCompleteProfile_coreFieldsPresent)
  have high: "roleHasKeyword U l \<and> industryHasKeyword U l \<and> coreFieldsPresent l \<longrightarrow>
        intent (getFallbackScore U (Some l) off) = str ''High''
        \<and> aiPoints (getFallbackScore U (Some l) off) = 50"
    by (simp add: some)
  have med: "(roleHasKeyword U l \<or> industryHasKeyword U l)
       \<and> \<not> (roleHasKeyword U l \<and> industryHasKeyword U l \<and> coreFieldsPresent l) \<longrightarrow>
        intent (getFallbackScore U (Some l) off) = str ''Medium''
        \<and> aiPoints (getFallbackScore U (Some l) off) = 30"
    by (auto simp add: some)
  have low: "\<not> roleHasKeyword U l \<and> \<not> industryHasKeyword U l \<longrightarrow>
        intent (getFallbackScore U (Some l) off) = str ''Low''
        \<and> aiPoints (getFallbackScore U (Some l) off) = 10"
    by (simp add: some)
  from none high med low src show ?thesis by blast
qed

lemma sampleLead_conditions:
  "roleHasKeyword sampleTables sampleLead \<and> industryHasKeyword sampleTables sampleLead
   \<and> coreFieldsPresent sampleLead"
  by (simp add: roleHasKeyword_def industryHasKeyword_def coreFieldsPresent_def sampleLead_def
      fallbackRoleKeywords_def fallbackIndustryKeywords_def nonEmptyAfterTrim_def trim_def
      isWhiteSpace_def str_def toLowerCase_def asciiLower_def startsWith_def)

lemma farmLead_conditions:
  "roleHasKeyword sampleTables farmLead \<and> \<not> industryHasKeyword sampleTables farmLead"
  by (simp add: roleHasKeyword_def industryHasKeyword_def farmLead_def sampleLead_def
      fallbackRoleKeywords_def fallbackIndustryKeywords_def str_def toLowerCase_def
      asciiLower_def startsWith_def)

lemma partialLead_conditions:
  "\<not> roleHasKeyword sampleTables partialLead \<and> \<not> industryHasKeyword sampleTables partialLead"
  by (simp add: roleHasKeyword_def industryHasKeyword_def partialLead_def
      fallbackRoleKeywords_def fallbackIndustryKeywords_def str_def toLowerCase_def
      asciiLower_def startsWith_def)

theorem getFallbackScore_spec_witness:
  "intent (getFallbackScore sampleTables (Some sampleLead) (Some sampleOffer)) = str ''High''
   \<and> aiPoints (getFallbackScore sampleTables (Some sampleLead) (Some sampleOffer)) = 50
   \<and> intent (getFallbackScore sampleTables (Some farmLead) (Some sampleOffer)) = str ''Medium''
   \<and> aiPoints (getFallbackScore sampleTables (Some farmLead) (Some sampleOffer)) = 30
   \<and> intent (getFallbackScore sampleTables (Some partialLead) None) = str ''Low''
   \<and> aiPoints (getFallbackScore sampleTables (Some partialLead) None) = 10
   \<and> getFallbackScore sampleTables None None = insufficientData"
proof -
  note hi = getFallbackScore_spec
      [of sampleTables "Some sampleOffer" sampleLead None, THEN conjunct2, THEN conjunct1]
  note med = getFallbackScore_spec
      [of sampleTables "Some sampleOffer" farmLead None, THEN conjunct2, THEN conjunct2,
       THEN conjunct1]
  note lo = getFallbackScore_spec
      [of sampleTables None partialLead None, THEN conjunct2, THEN conjunct2, THEN conjunct2,
       THEN conjunct1]
  note no = getFallbackScore_spec [of sampleTables None partialLead None, THEN conjunct1]
  have m: "(roleHasKeyword sampleTables farmLead \<or> industryHasKeyword sampleTables farmLead)
     \<and> \<not> (roleHasKeyword sampleTables farmLead \<and> industryHasKeyword sampleTables farmLead
           \<and> coreFieldsPresent farmLead)"
    using farmLead_conditions by simp
  from mp [OF hi sampleLead_conditions] mp [OF med m] mp [OF lo partialLead_conditions] no
  show ?thesis by (elim conjE) (intro conjI; assumption)
qed

text \<open>
  C10. The fallback result does not depend on the offer (any two offers, an absent one
  included, give the same result), and for two leads that agree on role, industry, name
  and company it is the same.
\<close>

theorem getFallbackScore_offer_independent:
  "getFallbackScore U ld off = getFallbackScore U ld off'
   \<and> (role l = role l' \<and> industry l = industry l' \<and> name l = name l' \<and> company l = company l'
        \<longrightarrow> getFallbackScore U (Some l) off = getFallbackScore U (Some l') off')"
  by (simp add: getFallbackScore_def hasDecisionMakerRole_def hasTechIndustry_def
      hasCompleteProfile_def)

theorem getFallbackScore_offer_independent_witness:
  "getFallbackScore sampleTables (Some sampleLead) (Some sampleOffer)
     = getFallbackScore sampleTables (Some (sampleLead\<lparr>location := None, linkedin_bio := Some []\<rparr>)) None"
  using getFallbackScore_offer_independent
    [of sampleTables "Some sampleLead" "Some sampleOffer" None sampleLead
        "sampleLead\<lparr>location := None, linkedin_bio := Some []\<rparr>"]
  by (elim conjE) simp

text \<open>
  The paths of \<open>scoreLeadWithAI\<close>. For every lead, offer, configuration and outcome of
  the primary call it returns a result and throws nothing. Without a credential, and when
  the primary call throws, the result is the fallback result of the lead. When the
  response is empty it is the fallback result of an absent lead. In the three cases the
  source is fallback. A non-empty response is parsed.
\<close>

lemma scoreLeadWithAI_paths:
  "(\<exists>r. scoreLeadWithAI U isConfigured primary ld off = Inr r)
   \<and> (\<not> isConfigured \<longrightarrow>
        scoreLeadWithAI U isConfigured primary ld off = Inr (getFallbackScore U ld off))
   \<and> (isConfigured \<and> primary = Inl e \<longrightarrow>
        scoreLeadWithAI U isConfigured primary ld off = Inr (getFallbackScore U ld off))
   \<and> (isConfigured \<and> primary = Inr [] \<longrightarrow>
        scoreLeadWithAI U isConfigured primary ld off = Inr (getFallbackScore U None None))
   \<and> (isConfigured \<and> primary = Inr aiResponse \<and> aiResponse \<noteq> [] \<longrightarrow>
        scoreLeadWithAI U isConfigured primary ld off = Inr (parseAIResponse U aiResponse))
   \<and> (\<not> isConfigured \<or> isl primary \<or> primary = Inr [] \<longrightarrow>
        (\<exists>r. scoreLeadWithAI U isConfigured primary ld off = Inr r \<and> source r = str ''fallback''))"
proof -
  have src: "source (getFallbackScore U x y) = str ''fallback''" for x y
    by (cases x) (simp_all add: getFallbackScore_def)
  show ?thesis
    by (cases primary)
      (auto simp add: scoreLeadWithAI_def tryCatch_def parseAIResponse_def src)
qed

lemma sampleResponse_nonempty: "sampleResponse \<noteq> []"
  by (simp add: sampleResponse_def str_def)

lemma scoreLeadWithAI_paths_sample:
  "scoreLeadWithAI sampleTables False (Inr sampleResponse) (Some sampleLead) (Some sampleOffer)
     = Inr (getFallbackScore sampleTables (Some sampleLead) (Some sampleOffer))
   \<and> scoreLeadWithAI sampleTables True (Inl (Error (str ''fetch failed''))) (Some sampleLead) (Some sampleOffer)
     = Inr (getFallbackScore sampleTables (Some sampleLead) (Some sampleOffer))
   \<and> scoreLeadWithAI sampleTables True (Inr []) (Some sampleLead) (Some sampleOffer)
     = Inr (getFallbackScore sampleTables None None)
   \<and> scoreLeadWithAI sampleTables True (Inr sampleResponse) (Some sampleLead) (Some sampleOffer)
     = Inr (parseAIResponse sampleTables sampleResponse)"
proof -
  note t1 = scoreLeadWithAI_paths
      [of sampleTables False "Inr sampleResponse" "Some sampleLead" "Some sampleOffer",
       THEN conjunct2, THEN conjunct1]
  note t2 = scoreLeadWithAI_paths
      [of sampleTables True "Inl (Error (str ''fetch failed''))" "Some sampleLead" "Some sampleOffer"
          "Error (str ''fetch failed'')",
       THEN conjunct2, THEN conjunct2, THEN conjunct1]
  note t3 = scoreLeadWithAI_paths
      [of sampleTables True "Inr []" "Some sampleLead" "Some sampleOffer",
       THEN conjunct2, THEN conjunct2, THEN conjunct2, THEN conjunct1]
  note t4 = scoreLeadWithAI_paths
      [of sampleTables True "Inr sampleResponse" "Some sampleLead" "Some sampleOffer" _ sampleResponse,
       THEN conjunct2, THEN conjunct2, THEN conjunct2, THEN conjunct2, THEN conjunct1]
  have h1: "\<not> False" by simp
  have h2: "True \<and> (Inl (Error (str ''fetch failed'')) :: exn + jsstring) = Inl (Error (str ''fetch failed''))"
    by simp
  have h3: "True \<and> (Inr [] :: exn + jsstring) = Inr []" by simp
  have h4: "True \<and> (Inr sampleResponse :: exn + jsstring) = Inr sampleResponse \<and> sampleResponse \<noteq> []"
    using sampleResponse_nonempty by simp
  from mp [OF t1 h1] mp [OF t2 h2] mp [OF t3 h3] mp [OF t4 h4]
  show ?thesis by - (intro conjI; assumption)
qed




section \<open>Intent classifier: parsing the response\<close>

lemma ciPrefix_take:
  "ciPrefix p s \<Longrightarrow>
     (\<forall>c\<in>set (take (length p) s). c < 128)
     \<and> map asciiUpper (take (length p) s) = map asciiUpper p
     \<and> length (take (length p) s) = length p"
  by (induction p s rule: ciPrefix.induct) (auto simp add: ciEq_def)

lemma titleCase_ascii:
  assumes "\<forall>c\<in>set m. c < 128"
  shows "titleCase U m = map asciiUpper (take 1 m) @ map asciiLower (drop 1 (map asciiUpper m))"
proof -
  have 1: "\<forall>c\<in>set (take 1 m). c < 128" using assms by (auto dest: in_set_takeD)
  have 2: "\<forall>c\<in>set (drop 1 m). c < 128" using assms by (auto dest: in_set_dropD)
  show ?thesis
    unfolding titleCase_def
    by (simp only: toUpperCase_ascii [OF 1] toLowerCase_ascii [OF 2])
      (simp add: drop_map asciiLower_asciiUpper)
qed

lemma titleCase_label:
  assumes "ciPrefix p s" and "length p > 0"
  shows "titleCase U (take (length p) s)
           = asciiUpper (hd p) # map asciiLower (map asciiUpper (tl p))"
proof -
  let ?m = "take (length p) s"
  from ciPrefix_take [OF assms(1)]
  have a: "\<forall>c\<in>set ?m. c < 128" and u: "map asciiUpper ?m = map asciiUpper p"
    by simp_all
  have "titleCase U ?m = map asciiUpper (take 1 ?m) @ map asciiLower (drop 1 (map asciiUpper ?m))"
    using a by (rule titleCase_ascii)
  also have "map asciiUpper (take 1 ?m) = take 1 (map asciiUpper ?m)"
    by (simp add: take_map)
  finally have "titleCase U ?m = take 1 (map asciiUpper p) @ map asciiLower (drop 1 (map asciiUpper p))"
    by (simp only: u)
  then show ?thesis using assms(2) by (cases p) simp_all
qed

lemma titleCase_high: "ciPrefix (str ''high'') s \<Longrightarrow> titleCase U (take 4 s) = str ''High''"
proof -
  assume h: "ciPrefix (str ''high'') s"
  have len: "length (str ''high'') = 4" by (simp add: str_def)
  have rhs: "asciiUpper (hd (str ''high'')) # map asciiLower (map asciiUpper (tl (str ''high'')))
               = str ''High''"
    by (simp add: str_def asciiUpper_def asciiLower_def)
  from titleCase_label [OF h, of U] len rhs show ?thesis by simp
qed

lemma titleCase_medium: "ciPrefix (str ''medium'') s \<Longrightarrow> titleCase U (take 6 s) = str ''Medium''"
proof -
  assume h: "ciPrefix (str ''medium'') s"
  have len: "length (str ''medium'') = 6" by (simp add: str_def)
  have rhs: "asciiUpper (hd (str ''medium'')) # map asciiLower (map asciiUpper (tl (str ''medium'')))
               = str ''Medium''"
    by (simp add: str_def asciiUpper_def asciiLower_def)
  from titleCase_label [OF h, of U] len rhs show ?thesis by simp
qed

lemma titleCase_low: "ciPrefix (str ''low'') s \<Longrightarrow> titleCase U (take 3 s) = str ''Low''"
proof -
  assume h: "ciPrefix (str ''low'') s"
  have len: "length (str ''low'') = 3" by (simp add: str_def)
  have rhs: "asciiUpper (hd (str ''low'')) # map asciiLower (map asciiUpper (tl (str ''low'')))
               = str ''Low''"
    by (simp add: str_def asciiUpper_def asciiLower_def)
  from titleCase_label [OF h, of U] len rhs show ?thesis by simp
qed

lemma matchLabel_titleCase:
  "matchLabel s = Some m \<Longrightarrow> titleCase U m \<in> labels"
  by (auto simp add: matchLabel_def labels_def titleCase_high titleCase_medium titleCase_low
      split: if_splits)

lemma intentMatch_matchLabel:
  "intentMatch s = Some m \<Longrightarrow> \<exists>t. matchLabel t = Some m"
  by (induction s) (auto simp add: intentMatchAt_def split: option.splits if_splits)

lemma parseLine_fst_labels:
  "fst st \<in> labels \<Longrightarrow> fst (parseLine U st line) \<in> labels"
  by (auto simp add: parseLine_def split: option.splits
      dest!: intentMatch_matchLabel dest: matchLabel_titleCase)

lemma foldl_parseLine_labels:
  "fst st \<in> labels \<Longrightarrow> fst (foldl (parseLine U) st ls) \<in> labels"
  by (induction ls arbitrary: st) (simp_all add: parseLine_fst_labels)

lemma foldl_parseLine_no_intent:
  "\<forall>line\<in>set ls. \<not> isIntentLine U line \<Longrightarrow> fst (foldl (parseLine U) st ls) = fst st"
  by (induction ls arbitrary: st)
    (auto simp add: parseLine_def isIntentLine_def split: option.splits)

lemma foldl_parseLine_no_reasoning:
  "\<forall>line\<in>set ls. \<not> isReasoningLine U line \<Longrightarrow> snd (foldl (parseLine U) st ls) = snd st"
  by (induction ls arbitrary: st)
    (auto simp add: parseLine_def isReasoningLine_def split: option.splits)

lemma intentToPoints_table:
  "intentToPoints (str ''High'') = 50 \<and> intentToPoints (str ''Medium'') = 30
   \<and> intentToPoints (str ''Low'') = 10"
  by (simp add: intentToPoints_def mapping_def str_def)

lemma intentToPoints_default:
  "i \<notin> labels \<Longrightarrow> intentToPoints i = 30"
  by (simp add: intentToPoints_def mapping_def labels_def)

lemma intentToPoints_labels: "i \<in> labels \<Longrightarrow> intentToPoints i \<in> {50, 30, 10}"
  using intentToPoints_table by (auto simp add: labels_def)

text \<open>
  C6, as amended. For every non-empty response text the result has the source gemini
  (the model), its intent is one of the three labels and its points are those of the
  table for that intent (50, 30 or 10). The intent is Medium, with 30 points, when no line
  of the trimmed text has the prefix \<open>intent:\<close> with one of the three labels matching;
  the reasoning is the placeholder when no line has the prefix \<open>reasoning:\<close>. The
  table gives 50, 30 and 10 for High, Medium and Low, and 30 for a string that is no
  property name of the table object (none of the labels, none of the inherited names).
  For the empty text the parser returns the fallback result of an absent lead.
\<close>

theorem parseAIResponse_spec:
  "(aiResponse \<noteq> [] \<longrightarrow>
      source (parseAIResponse U aiResponse) = str ''gemini''
      \<and> intent (parseAIResponse U aiResponse) \<in> labels
      \<and> aiPoints (parseAIResponse U aiResponse)
          = intentToPoints (intent (parseAIResponse U aiResponse))
      \<and> aiPoints (parseAIResponse U aiResponse) \<in> {50, 30, 10}
      \<and> ((\<forall>line\<in>set (split 10 (trim aiResponse)). \<not> isIntentLine U line) \<longrightarrow>
            intent (parseAIResponse U aiResponse) = str ''Medium''
            \<and> aiPoints (parseAIResponse U aiResponse) = 30)
      \<and> ((\<forall>line\<in>set (split 10 (trim aiResponse)). \<not> isReasoningLine U line) \<longrightarrow>
            reasoning (parseAIResponse U aiResponse) = str ''AI analysis completed''))
   \<and> parseAIResponse U [] = insufficientData
   \<and> intentToPoints (str ''High'') = 50
   \<and> intentToPoints (str ''Medium'') = 30
   \<and> intentToPoints (str ''Low'') = 10
   \<and> (i \<notin> labels \<and> i \<notin> set objectPrototypeNames \<longrightarrow> intentToPoints i = 30)"
proof -
  let ?ls = "split 10 (trim aiResponse)"
  let ?st = "foldl (parseLine U) (str ''Medium'', str ''AI analysis completed'') ?ls"
  have res: "parseAIResponse U aiResponse =
      \<lparr> intent = fst ?st, reasoning = snd ?st, aiPoints = intentToPoints (fst ?st),
        source = str ''gemini'' \<rparr>" if "aiResponse \<noteq> []"
    using that by (simp add: parseAIResponse_def Let_def)
  have lab: "fst ?st \<in> labels"
    by (rule foldl_parseLine_labels) (simp add: labels_def)
  have noint: "fst ?st = str ''Medium''" if "\<forall>line\<in>set ?ls. \<not> isIntentLine U line"
    using foldl_parseLine_no_intent [OF that] by simp
  have nore: "snd ?st = str ''AI analysis completed''"
    if "\<forall>line\<in>set ?ls. \<not> isReasoningLine U line"
    using foldl_parseLine_no_reasoning [OF that] by simp
  have nonempty: "aiResponse \<noteq> [] \<longrightarrow>
      source (parseAIResponse U aiResponse) = str ''gemini''
      \<and> intent (parseAIResponse U aiResponse) \<in> labels
      \<and> aiPoints (parseAIResponse U aiResponse)
          = intentToPoints (intent (parseAIResponse U aiResponse))
      \<and> aiPoints (parseAIResponse U aiResponse) \<in> {50, 30, 10}
      \<and> ((\<forall>line\<in>set ?ls. \<not> isIntentLine U line) \<longrightarrow>
            intent (parseAIResponse U aiResponse) = str ''Medium''
            \<and> aiPoints (parseAIResponse U aiResponse) = 30)
      \<and> ((\<forall>line\<in>set ?ls. \<not> isReasoningLine U line) \<longrightarrow>
            reasoning (parseAIResponse U aiResponse) = str ''AI analysis completed'')"
    using lab intentToPoints_labels [OF lab] noint nore intentToPoints_table
    by (simp add: res)
  have empty: "parseAIResponse U [] = insufficientData"
    by (simp add: parseAIResponse_def getFallbackScore_def insufficientData_def)
  have dflt: "i \<notin> labels \<and> i \<notin> set objectPrototypeNames \<longrightarrow> intentToPoints i = 30"
    by (simp add: intentToPoints_default)
  from nonempty empty intentToPoints_table dflt show ?thesis by blast
qed

lemma looks_promising_lines:
  "\<forall>line\<in>set (split 10 (trim (str ''Looks promising''))).
      \<not> isIntentLine sampleTables line \<and> \<not> isReasoningLine sampleTables line"
  by (simp add: str_def trim_def isWhiteSpace_def isIntentLine_def isReasoningLine_def
      toLowerCase_def asciiLower_def startsWith_def)

lemma unknown_label:
  "str ''Unknown'' \<notin> labels \<and> str ''Unknown'' \<notin> set objectPrototypeNames"
  by (simp add: labels_def objectPrototypeNames_def str_def)

lemma sampleResponse_parsed:
  "parseAIResponse sampleTables sampleResponse =
     \<lparr> intent = str ''High'', reasoning = str ''VP of Sales fits the ICP.'', aiPoints = 50,
       source = str ''gemini'' \<rparr>"
  by (simp add: parseAIResponse_def sampleResponse_def parseLine_def intentMatchAt_def
      matchLabel_def titleCase_def intentToPoints_def mapping_def
      trim_def isWhiteSpace_def str_def toLowerCase_def toUpperCase_def asciiLower_def
      asciiUpper_def startsWith_def ciEq_def Let_def)

theorem parseAIResponse_spec_witness:
  "str ''Looks promising'' \<noteq> []
   \<and> intent (parseAIResponse sampleTables (str ''Looks promising'')) = str ''Medium''
   \<and> reasoning (parseAIResponse sampleTables (str ''Looks promising'')) = str ''AI analysis completed''
   \<and> aiPoints (parseAIResponse sampleTables (str ''Looks promising'')) = 30
   \<and> source (parseAIResponse sampleTables (str ''Looks promising'')) = str ''gemini''
   \<and> intentToPoints (str ''Unknown'') = 30
   \<and> intent (parseAIResponse sampleTables sampleResponse) = str ''High''
   \<and> aiPoints (parseAIResponse sampleTables sampleResponse) = 50"
proof -
  have ne: "str ''Looks promising'' \<noteq> []" by (simp add: str_def)
  note t = parseAIResponse_spec [of "str ''Looks promising''" sampleTables "str ''Unknown''"]
  from t ne looks_promising_lines
  have a: "intent (parseAIResponse sampleTables (str ''Looks promising'')) = str ''Medium''
     \<and> reasoning (parseAIResponse sampleTables (str ''Looks promising'')) = str ''AI analysis completed''
     \<and> aiPoints (parseAIResponse sampleTables (str ''Looks promising'')) = 30
     \<and> source (parseAIResponse sampleTables (str ''Looks promising'')) = str ''gemini''"
    by blast
  from t unknown_label have b: "intentToPoints (str ''Unknown'') = 30"
    by blast
  have c: "intent (parseAIResponse sampleTables sampleResponse) = str ''High''
     \<and> aiPoints (parseAIResponse sampleTables sampleResponse) = 50"
    by (simp add: sampleResponse_parsed)
  from ne a b c show ?thesis by (elim conjE) (intro conjI; assumption)
qed

text \<open>
  The claim as stated, for every response text, fails at the empty text, which the guard
  at the head of \<open>parseAIResponse\<close> hands to the fallback: the source is not the
  model, and the intent is not the default Medium with 30 points.
\<close>

theorem parseAIResponse_empty_counterexample:
  "source (parseAIResponse sampleTables []) \<noteq> str ''gemini''
   \<and> intent (parseAIResponse sampleTables []) \<noteq> str ''Medium''
   \<and> aiPoints (parseAIResponse sampleTables []) \<noteq> 30"
  by (simp add: parseAIResponse_def getFallbackScore_def str_def)


section \<open>Scoring orchestrator: the loop over the leads\<close>

lemma scoreStep_eq:
  "scoreStep rule ai off ld i st =
     (fst st @ [scoredEntry (rule ld off) (ai i ld off) ld],
      snd st @ (case tryScore (rule ld off) (ai i ld off) ld of
                  Inr s \<Rightarrow> [] | Inl e \<Rightarrow> [(name ld, message e)]))"
  by (cases st) (simp add: scoreStep_def scoredEntry_def split: sum.split)

lemma scoreLoop_fst:
  "fst (scoreLoop rule ai off leads i st)
     = fst st @ map (\<lambda>j. scoredEntry (rule (leads ! j) off) (ai j (leads ! j) off) (leads ! j))
                    [i..<length leads]"
proof (induction rule ai off leads i st rule: scoreLoop.induct)
  case (1 rule ai off leads i st)
  show ?case
  proof (cases "i < length leads")
    case True
    from "1.IH" [OF True] True show ?thesis
      by (subst scoreLoop.simps) (simp add: scoreStep_eq upt_conv_Cons)
  next
    case False
    then show ?thesis
      by (subst scoreLoop.simps) simp
  qed
qed

lemma truncate_scoredEntry: "lead.truncate (scoredEntry ro ao ld) = lead.truncate ld"
  by (simp add: scoredEntry_def tryScore_def errorLead_def lead.truncate_def Let_def
      split: sum.split)

lemma truncate_lead: "lead.truncate (ld :: lead) = ld"
  by (simp add: lead.truncate_def)

lemma scoredEntry_invariant:
  "score (scoredEntry ro ao ld) = min (rule_score (scoredEntry ro ao ld) + ai_score (scoredEntry ro ao ld)) 100
   \<and> lead_intent (scoredEntry ro ao ld) = finalIntentOf (score (scoredEntry ro ao ld))
   \<and> final_score (scoredEntry ro ao ld) = score (scoredEntry ro ao ld)"
  by (simp add: scoredEntry_def tryScore_def errorLead_def Let_def finalIntentOf_def
      split: sum.split)

lemma scoredEntry_Inr:
  "scoredEntry (Inr r) (Inr a) ld =
     \<lparr> name = name ld, role = role ld, company = company ld,
       industry = industry ld, location = location ld, linkedin_bio = linkedin_bio ld,
       lead_intent = finalIntentOf (min (total r + aiPoints a) 100),
       score = min (total r + aiPoints a) 100,
       lead_reasoning = buildReasoning r a (min (total r + aiPoints a) 100),
       rule_score = total r, ai_score = aiPoints a,
       final_score = min (total r + aiPoints a) 100,
       lead_details = ScoreDetails (details r) (source a) (reasoning a) \<rparr>"
  by (simp add: scoredEntry_def tryScore_def Let_def)

lemma scoredEntry_Inl: "scoredEntry (Inl e) ao ld = errorLead ld e"
  by (simp add: scoredEntry_def tryScore_def)

lemma scoredEntry_Inr_Inl: "scoredEntry (Inr r) (Inl e) ld = errorLead ld e"
  by (simp add: scoredEntry_def tryScore_def)

lemma scoreLeadWithAI_Inr: "\<exists>a. scoreLeadWithAI U isConfigured primary ld off = Inr a"
  by (cases primary) (simp_all add: scoreLeadWithAI_def tryCatch_def)

lemma finalIntentOf_thresholds:
  "(finalIntentOf x = str ''High'' \<longleftrightarrow> x \<ge> 70)
   \<and> (finalIntentOf x = str ''Medium'' \<longleftrightarrow> 40 \<le> x \<and> x < 70)
   \<and> (finalIntentOf x = str ''Low'' \<longleftrightarrow> x < 40)"
  by (auto simp add: finalIntentOf_def str_def)

lemma finalIntentOf_boundaries:
  "finalIntentOf 39 = str ''Low'' \<and> finalIntentOf 40 = str ''Medium''
   \<and> finalIntentOf 69 = str ''Medium'' \<and> finalIntentOf 70 = str ''High''"
  by (simp add: finalIntentOf_def)


section \<open>Scoring orchestrator: the final score\<close>

lemma getFallbackScore_points: "aiPoints (getFallbackScore U ld off) \<in> {10, 30, 50}"
  by (cases ld) (simp_all add: getFallbackScore_def)

lemma parseAIResponse_points: "aiPoints (parseAIResponse U aiResponse) \<in> {10, 30, 50}"
proof (cases "aiResponse = []")
  case True
  then show ?thesis
    using getFallbackScore_points [of U None None] by (simp add: parseAIResponse_def)
next
  case False
  let ?st = "foldl (parseLine U) (str ''Medium'', str ''AI analysis completed'') (split 10 (trim aiResponse))"
  have "fst ?st \<in> labels"
    by (rule foldl_parseLine_labels) (simp add: labels_def)
  from intentToPoints_labels [OF this] False show ?thesis
    by (auto simp add: parseAIResponse_def Let_def)
qed

lemma scoreLeadWithAI_points:
  "scoreLeadWithAI U isConfigured primary ld off = Inr a \<Longrightarrow> aiPoints a \<in> {10, 30, 50}"
  using getFallbackScore_points [of U ld off] parseAIResponse_points [of U]
  by (cases primary) (auto simp add: scoreLeadWithAI_def tryCatch_def split: if_splits)

lemma ruleScore_total_bounds:
  "0 \<le> total (calculateRuleScore U l off) \<and> total (calculateRuleScore U l off) \<le> 50"
  using calculateRoleScore_range [of U "role l"] calculateIndustryScore_range [of U "industry l" off]
    calculateCompletenessScore_range [of l]
  by (auto simp add: calculateRuleScore_def Let_def)

lemma scoreLeads_fst:
  "fst (scoreLeads U isConfigured primary off leads)
     = map (\<lambda>j. scoredEntry (Inr (calculateRuleScore U (leads ! j) (Some off)))
                   (scoreLeadWithAI U isConfigured (primary j) (Some (leads ! j)) (Some off))
                   (leads ! j))
           [0..<length leads]"
  by (simp add: scoreLeads_def scoreLoop_fst)

lemma pipeline_entry_bounds:
  "10 \<le> score (scoredEntry (Inr (calculateRuleScore U l off)) (scoreLeadWithAI U c p ld' off') ld)
   \<and> score (scoredEntry (Inr (calculateRuleScore U l off)) (scoreLeadWithAI U c p ld' off') ld) \<le> 100"
proof -
  obtain a where a: "scoreLeadWithAI U c p ld' off' = Inr a"
    using scoreLeadWithAI_Inr by blast
  from scoreLeadWithAI_points [OF a] ruleScore_total_bounds [of U l off]
  show ?thesis
    by (auto simp add: a scoredEntry_Inr)
qed

text \<open>
  C1. For every lead that the scoring loop processes, the final score is the minimum of
  100 and the sum of the rule score total and the points of the classifier, it lies
  between 0 and 100, and the final intent is the function \<open>finalIntentOf\<close> of the final
  score alone: High exactly from 70 on, Medium exactly from 40 to 69, Low below 40, so
  Low at 39, Medium at 40 and 69, High at 70. The intent label of the classifier's own
  result does not enter it. The same equations hold of the entry of any iteration, the
  placeholder of a failed one included (0 = min (0 + 0) 100, Low).
\<close>

theorem scoreLeads_final_score:
  "(\<forall>s\<in>set (fst (scoreLeads U isConfigured primary off leads)).
       score s = min (rule_score s + ai_score s) 100
       \<and> lead_intent s = finalIntentOf (score s)
       \<and> 0 \<le> score s \<and> score s \<le> 100)
   \<and> (i < length leads
        \<and> scoreLeadWithAI U isConfigured (primary i) (Some (leads ! i)) (Some off) = Inr a \<longrightarrow>
         score (fst (scoreLeads U isConfigured primary off leads) ! i)
           = min (total (calculateRuleScore U (leads ! i) (Some off)) + aiPoints a) 100
         \<and> lead_intent (fst (scoreLeads U isConfigured primary off leads) ! i)
           = finalIntentOf (min (total (calculateRuleScore U (leads ! i) (Some off)) + aiPoints a) 100))
   \<and> score (scoredEntry ro ao ld) = min (rule_score (scoredEntry ro ao ld) + ai_score (scoredEntry ro ao ld)) 100
   \<and> lead_intent (scoredEntry ro ao ld) = finalIntentOf (score (scoredEntry ro ao ld))
   \<and> lead_intent (scoredEntry (Inr r) (Inr (b\<lparr>intent := lbl\<rparr>)) ld)
       = lead_intent (scoredEntry (Inr r) (Inr b) ld)
   \<and> (finalIntentOf x = str ''High'' \<longleftrightarrow> x \<ge> 70)
   \<and> (finalIntentOf x = str ''Medium'' \<longleftrightarrow> 40 \<le> x \<and> x < 70)
   \<and> (finalIntentOf x = str ''Low'' \<longleftrightarrow> x < 40)
   \<and> finalIntentOf 39 = str ''Low'' \<and> finalIntentOf 40 = str ''Medium''
   \<and> finalIntentOf 69 = str ''Medium'' \<and> finalIntentOf 70 = str ''High''"
proof -
  have all: "\<forall>s\<in>set (fst (scoreLeads U isConfigured primary off leads)).
       score s = min (rule_score s + ai_score s) 100
       \<and> lead_intent s = finalIntentOf (score s)
       \<and> 0 \<le> score s \<and> score s \<le> 100"
  proof
    fix s
    assume "s \<in> set (fst (scoreLeads U isConfigured primary off leads))"
    then obtain j where s: "s = scoredEntry (Inr (calculateRuleScore U (leads ! j) (Some off)))
                   (scoreLeadWithAI U isConfigured (primary j) (Some (leads ! j)) (Some off))
                   (leads ! j)"
      by (auto simp add: scoreLeads_fst)
    from scoredEntry_invariant
           [of "Inr (calculateRuleScore U (leads ! j) (Some off))"
               "scoreLeadWithAI U isConfigured (primary j) (Some (leads ! j)) (Some off)"
               "leads ! j"]
         pipeline_entry_bounds
           [of U "leads ! j" "Some off" isConfigured "primary j" "Some (leads ! j)" "Some off" "leads ! j"]
    show "score s = min (rule_score s + ai_score s) 100
       \<and> lead_intent s = finalIntentOf (score s)
       \<and> 0 \<le> score s \<and> score s \<le> 100"
      by (simp add: s)
  qed
  have nth: "i < length leads
        \<and> scoreLeadWithAI U isConfigured (primary i) (Some (leads ! i)) (Some off) = Inr a \<longrightarrow>
         score (fst (scoreLeads U isConfigured primary off leads) ! i)
           = min (total (calculateRuleScore U (leads ! i) (Some off)) + aiPoints a) 100
         \<and> lead_intent (fst (scoreLeads U isConfigured primary off leads) ! i)
           = finalIntentOf (min (total (calculateRuleScore U (leads ! i) (Some off)) + aiPoints a) 100)"
    by (simp add: scoreLeads_fst scoredEntry_Inr)
  have indep: "lead_intent (scoredEntry (Inr r) (Inr (b\<lparr>intent := lbl\<rparr>)) ld)
       = lead_intent (scoredEntry (Inr r) (Inr b) ld)"
    by (simp add: scoredEntry_Inr)
  from all nth indep scoredEntry_invariant [of ro ao ld] finalIntentOf_thresholds [of x]
    finalIntentOf_boundaries
  show ?thesis by (elim conjE) (intro conjI; assumption)
qed



lemma sampleLead_fallback:
  "scoreLeadWithAI sampleTables False (Inl (Error [])) (Some sampleLead) (Some sampleOffer)
     = Inr (getFallbackScore sampleTables (Some sampleLead) (Some sampleOffer))"
  by (simp add: scoreLeadWithAI_def)

lemma sampleLead_points:
  "aiPoints (getFallbackScore sampleTables (Some sampleLead) (Some sampleOffer)) = 50"
  using sampleLead_conditions
  by (simp add: getFallbackScore_def hasDecisionMakerRole_roleHasKeyword
      hasTechIndustry_industryHasKeyword hasCompleteProfile_coreFieldsPresent)

theorem scoreLeads_final_score_witness:
  "score (fst (scoreLeads sampleTables False (\<lambda>i. Inl (Error [])) sampleOffer [sampleLead]) ! 0) = 100
   \<and> lead_intent (fst (scoreLeads sampleTables False (\<lambda>i. Inl (Error [])) sampleOffer [sampleLead]) ! 0)
       = str ''High''
   \<and> rule_score (fst (scoreLeads sampleTables False (\<lambda>i. Inl (Error [])) sampleOffer [sampleLead]) ! 0)
       + ai_score (fst (scoreLeads sampleTables False (\<lambda>i. Inl (Error [])) sampleOffer [sampleLead]) ! 0)
       = 100"
proof -
  let ?out = "fst (scoreLeads sampleTables False (\<lambda>i. Inl (Error [])) sampleOffer [sampleLead])"
  note t = scoreLeads_final_score
      [of sampleTables False "\<lambda>i. Inl (Error [])" sampleOffer "[sampleLead]" 0
          "getFallbackScore sampleTables (Some sampleLead) (Some sampleOffer)"]
  from t [THEN conjunct2, THEN conjunct1] sampleLead_fallback sampleLead_total sampleLead_points
  have nth: "score (?out ! 0) = 100 \<and> lead_intent (?out ! 0) = str ''High''"
    by (simp add: finalIntentOf_def)
  have "?out ! 0 \<in> set ?out"
    by (rule nth_mem) (simp add: scoreLeads_fst)
  with t [THEN conjunct1] have "score (?out ! 0) = min (rule_score (?out ! 0) + ai_score (?out ! 0)) 100"
    by blast
  moreover have "rule_score (?out ! 0) + ai_score (?out ! 0) = 100"
    using sampleLead_fallback sampleLead_total sampleLead_points
    by (simp add: scoreLeads_fst scoredEntry_Inr)
  ultimately show ?thesis using nth by simp
qed


section \<open>Scoring orchestrator: one entry per lead\<close>

lemma scoreLoop_length:
  "length (fst (scoreLoop rule ai off leads 0 ([], []))) = length leads"
  by (simp add: scoreLoop_fst)

lemma scoreLoop_truncate:
  "map lead.truncate (fst (scoreLoop rule ai off leads 0 ([], []))) = leads"
proof -
  have "map lead.truncate (fst (scoreLoop rule ai off leads 0 ([], [])))
          = map (\<lambda>j. leads ! j) [0..<length leads]"
    by (simp add: scoreLoop_fst truncate_scoredEntry truncate_lead)
  then show ?thesis by (simp add: map_nth)
qed

lemma errorLead_fields:
  "score (errorLead ld e) = 0 \<and> lead_intent (errorLead ld e) = str ''Low''
   \<and> rule_score (errorLead ld e) = 0 \<and> ai_score (errorLead ld e) = 0
   \<and> final_score (errorLead ld e) = 0
   \<and> lead_details (errorLead ld e) = ErrorDetails (message e)
   \<and> lead.truncate (errorLead ld e) = ld"
  by (simp add: errorLead_def lead.truncate_def)

text \<open>
  C7. For every sequence of leads, whatever the two scorers do, the loop appends exactly
  one scored lead per lead, in the order of the input: the result has the length of the
  input, its entry at position \<open>i\<close> is the entry of the \<open>i\<close>-th lead alone and carries
  the six fields of that lead. When scoring a lead throws (the rule engine, or after it
  the classifier), the entry is the placeholder with score 0, intent Low and the details
  flagged as an error with the message, and the other entries are what they are without
  the failure. The same holds of the loop with the two functions of the repository.
\<close>

theorem scoreLoop_one_per_lead:
  "fst (scoreLoop rule ai off leads 0 ([], []))
     = map (\<lambda>i. scoredEntry (rule (leads ! i) off) (ai i (leads ! i) off) (leads ! i))
           [0..<length leads]
   \<and> length (fst (scoreLoop rule ai off leads 0 ([], []))) = length leads
   \<and> map lead.truncate (fst (scoreLoop rule ai off leads 0 ([], []))) = leads
   \<and> scoredEntry (Inl e) ao ld = errorLead ld e
   \<and> scoredEntry (Inr r) (Inl e) ld = errorLead ld e
   \<and> score (errorLead ld e) = 0
   \<and> lead_intent (errorLead ld e) = str ''Low''
   \<and> lead_details (errorLead ld e) = ErrorDetails (message e)
   \<and> lead.truncate (errorLead ld e) = ld
   \<and> length (fst (scoreLeads U isConfigured primary off leads)) = length leads
   \<and> map lead.truncate (fst (scoreLeads U isConfigured primary off leads)) = leads"
proof -
  have a: "fst (scoreLoop rule ai off leads 0 ([], []))
     = map (\<lambda>i. scoredEntry (rule (leads ! i) off) (ai i (leads ! i) off) (leads ! i))
           [0..<length leads]"
    by (simp add: scoreLoop_fst)
  have b: "length (fst (scoreLeads U isConfigured primary off leads)) = length leads"
    unfolding scoreLeads_def by (rule scoreLoop_length)
  have c: "map lead.truncate (fst (scoreLeads U isConfigured primary off leads)) = leads"
    unfolding scoreLeads_def by (rule scoreLoop_truncate)
  from a b c scoreLoop_length [of rule ai off leads] scoreLoop_truncate [of rule ai off leads]
    scoredEntry_Inl [of e ao ld] scoredEntry_Inr_Inl [of r e ld] errorLead_fields [of ld e]
  show ?thesis by (elim conjE) (intro conjI; assumption)
qed

lemma failingRule_sample:
  "failingRule sampleLead sampleOffer = Inl (Error (str ''unexpected''))"
  by (simp add: failingRule_def)

lemma partialLead_neq: "partialLead \<noteq> sampleLead"
  by (simp add: partialLead_def sampleLead_def str_def)

lemma failingRule_partial:
  "failingRule partialLead sampleOffer = Inr (calculateRuleScore sampleTables partialLead (Some sampleOffer))"
  using partialLead_neq by (simp add: failingRule_def)

lemma fallbackOnly_eq:
  "fallbackOnly i ld off = Inr (getFallbackScore sampleTables (Some ld) (Some off))"
  by (simp add: fallbackOnly_def scoreLeadWithAI_def)

lemma upt_two: "[0..<length [x, y]] = [0, 1]"
  by (simp add: upt_rec)

lemma partialLead_role: "calculateRoleScore sampleTables (role partialLead) = 0"
  by (simp add: partialLead_def calculateRoleScore_def DECISION_MAKER_ROLES_def
      INFLUENCER_ROLES_def str_def toLowerCase_def asciiLower_def startsWith_def)

lemma partialLead_industry:
  "calculateIndustryScore sampleTables (industry partialLead) (Some sampleOffer) = 10"
  by (simp add: partialLead_def sampleOffer_def calculateIndustryScore_def matchesUseCase_def
      ICP_INDUSTRIES_def ADJACENT_INDUSTRIES_def str_def toLowerCase_def asciiLower_def startsWith_def)

lemma partialLead_completeness: "calculateCompletenessScore partialLead = 8"
  using calculateCompletenessScore_range presentCount_partialLead floor_five_sixths
  by (simp add: calculateCompletenessScore_def totalFields_def Let_def
      countCompleteFields_presentCount)

lemma partialLead_total:
  "total (calculateRuleScore sampleTables partialLead (Some sampleOffer)) = 18"
  by (simp add: calculateRuleScore_def Let_def partialLead_role partialLead_industry
      partialLead_completeness)

lemma partialLead_points:
  "aiPoints (getFallbackScore sampleTables (Some partialLead) (Some sampleOffer)) = 10"
  by (simp add: getFallbackScore_def hasDecisionMakerRole_def hasTechIndustry_def truthyAnd_def
      fallbackRoleKeywords_def fallbackIndustryKeywords_def partialLead_def str_def
      toLowerCase_def asciiLower_def startsWith_def)

theorem scoreLoop_one_per_lead_witness:
  "map score (fst (scoreLoop failingRule fallbackOnly sampleOffer [sampleLead, partialLead] 0 ([], [])))
     = [0, 28]
   \<and> map lead_intent (fst (scoreLoop failingRule fallbackOnly sampleOffer [sampleLead, partialLead] 0 ([], [])))
     = [str ''Low'', str ''Low'']
   \<and> map lead_details (fst (scoreLoop failingRule fallbackOnly sampleOffer [sampleLead, partialLead] 0 ([], [])))
     = [ErrorDetails (str ''unexpected''),
        ScoreDetails (details (calculateRuleScore sampleTables partialLead (Some sampleOffer)))
          (str ''fallback'')
          (reasoning (getFallbackScore sampleTables (Some partialLead) (Some sampleOffer)))]
   \<and> map lead.truncate (fst (scoreLoop failingRule fallbackOnly sampleOffer [sampleLead, partialLead] 0 ([], [])))
     = [sampleLead, partialLead]"
proof -
  note t = scoreLoop_one_per_lead
      [of failingRule fallbackOnly sampleOffer "[sampleLead, partialLead]"]
  have src: "source (getFallbackScore sampleTables (Some partialLead) (Some sampleOffer)) = str ''fallback''"
    by (simp add: getFallbackScore_def)
  from t [THEN conjunct1] t [THEN conjunct2, THEN conjunct2, THEN conjunct1]
  show ?thesis
    by (simp add: upt_two failingRule_sample failingRule_partial fallbackOnly_eq
        scoredEntry_Inl scoredEntry_Inr errorLead_def partialLead_total partialLead_points
        finalIntentOf_def src)
qed


section \<open>Summary statistics of the empty result\<close>



lemma calculateSummaryStats_too_long:
  "length scoredLeads > maxArguments \<Longrightarrow>
     calculateSummaryStats maxArguments scoredLeads = Inl tooManyArguments"
  by (simp add: calculateSummaryStats_def mathMax_def Let_def)





end
